theory Spec2Isabelle
  imports Main
begin

text \<open>
  The repository holds two copies of the client script. The one in
  \<^verbatim>\<open>src/unnamed/part_000\<close> sends a bearer token read from \<open>localStorage\<close> (the
  bearer-token client); the one in \<^verbatim>\<open>src/script.js\<close> relies on the session cookie
  (the session-cookie client), and its functions carry the suffix \<open>_session\<close> here.

  A function of the script is a function of what the browser does (a \<open>platform\<close>) and
  of the state the script changes (a \<open>world\<close>); it returns its result and the new
  world. A thrown exception is a result \<open>Inl\<close>, and every \<open>try\<close> and \<open>catch\<close> of the
  source is a case distinction on it. An \<open>await\<close> is a sequential step: what other
  event handlers do between two steps is outside the model, and so are the output to
  the console and a failure of \<open>localStorage\<close> or of the toast library.
\<close>

section \<open>JavaScript values\<close>

text \<open>
  The values the client handles come out of \<open>JSON.parse\<close>, out of \<open>response.json()\<close> or
  out of a missing property (\<open>undefined\<close>). Objects keep their properties in insertion
  order, as JavaScript does for the keys that are not array indices. Numbers are
  restricted to integers: the client never computes with a number, it only tests one
  for truthiness or turns it into a date.
\<close>

datatype jsval =
    JUndefined
  | JNull
  | JBool bool
  | JNum int
  | JStr string
  | JArr "jsval list"
  | JObj "(string \<times> jsval) list"

datatype exn =
    SyntaxError
  | TypeError
  | NetworkFailure
  | PositionError
  | Error string

text \<open>\<open>!v\<close> is \<open>\<not> truthy v\<close>.\<close>

fun truthy :: "jsval \<Rightarrow> bool" where
  "truthy JUndefined = False"
| "truthy JNull = False"
| "truthy (JBool b) = b"
| "truthy (JNum n) = (n \<noteq> 0)"
| "truthy (JStr s) = (s \<noteq> [])"
| "truthy (JArr xs) = True"
| "truthy (JObj ps) = True"

text \<open>Assignment of one property: an existing key keeps its place, a new key goes last.\<close>

fun put :: "'k \<Rightarrow> 'v \<Rightarrow> ('k \<times> 'v) list \<Rightarrow> ('k \<times> 'v) list" where
  "put k v [] = [(k, v)]"
| "put k v (p # ps) = (if fst p = k then (k, v) # ps else p # put k v ps)"

text \<open>The object spread \<open>{ ...target, ...src }\<close> on property lists.\<close>

fun spread :: "('k \<times> 'v) list \<Rightarrow> ('k \<times> 'v) list \<Rightarrow> ('k \<times> 'v) list" where
  "spread target [] = target"
| "spread target (p # ps) = spread (put (fst p) (snd p) target) ps"

text \<open>Decimal rendering of an array index, used for the keys of a spread array or string.\<close>

function decimal :: "nat \<Rightarrow> string" where
  "decimal n = (if n < 10 then [''0123456789'' ! n]
                else decimal (n div 10) @ [''0123456789'' ! (n mod 10)])"
  by pat_completeness auto
termination
  by (relation "measure id") auto

declare decimal.simps [simp del]

text \<open>
  The own enumerable properties that \<open>{ ...v }\<close> copies: those of an object, the indexed
  elements of an array or of a string, and nothing for the other primitives.
\<close>

fun ownProps :: "jsval \<Rightarrow> (string \<times> jsval) list" where
  "ownProps (JObj ps) = ps"
| "ownProps (JArr xs) = zip (map decimal [0 ..< length xs]) xs"
| "ownProps (JStr s) = zip (map decimal [0 ..< length s]) (map (\<lambda>c. JStr [c]) s)"
| "ownProps v = []"

text \<open>
  Property read \<open>v.k\<close>, for the keys this client reads (\<open>user\<close>, \<open>token\<close>, \<open>name\<close>,
  \<open>email\<close>, \<open>trips\<close>, \<open>status\<close>, \<open>startDate\<close>, \<open>endDate\<close>, \<open>message\<close>): none of them is
  an index or a built-in member, so on an array or a primitive the read is \<open>undefined\<close>.
  Reading a property of \<open>null\<close> or \<open>undefined\<close> throws a TypeError.
\<close>

fun getProp :: "jsval \<Rightarrow> string \<Rightarrow> exn + jsval" where
  "getProp JUndefined k = Inl TypeError"
| "getProp JNull k = Inl TypeError"
| "getProp (JObj ps) k = Inr (case map_of ps k of Some v \<Rightarrow> v | None \<Rightarrow> JUndefined)"
| "getProp v k = Inr JUndefined"

text \<open>String conversion, as in a template literal \<open>`${v}`\<close>.\<close>

fun intercalate :: "string \<Rightarrow> string list \<Rightarrow> string" where
  "intercalate sep [] = []"
| "intercalate sep [s] = s"
| "intercalate sep (s # t # ts) = s @ sep @ intercalate sep (t # ts)"

fun toStr :: "jsval \<Rightarrow> string" where
  "toStr JUndefined = ''undefined''"
| "toStr JNull = ''null''"
| "toStr (JBool b) = (if b then ''true'' else ''false'')"
| "toStr (JNum n) = (if n < 0 then ''-'' @ decimal (nat (- n)) else decimal (nat n))"
| "toStr (JStr s) = s"
| "toStr (JArr xs) =
     intercalate '','' (map (\<lambda>x. if x = JNull \<or> x = JUndefined then [] else toStr x) xs)"
| "toStr (JObj ps) = ''[object Object]''"

section \<open>The browser\<close>

record request =
  url :: string
  http_method :: "string option"
  headers :: "(string \<times> string) list"
  body :: "string option"
  credentials :: "string option"

text \<open>
  A response as the client reads it: the status, and what \<open>response.json()\<close> resolves
  to (\<open>None\<close> when the body is not JSON and the promise rejects).
\<close>

record response =
  status :: nat
  json :: "jsval option"

definition ok :: "response \<Rightarrow> bool" where
  "ok r = (200 \<le> status r \<and> status r \<le> 299)"

datatype fetch_result = NetworkError | Response response

datatype geo_result =
    GeoUnsupported
  | GeoError
  | GeoPosition jsval jsval

text \<open>
  What the browser and the network do is a parameter of every operation:
  \<open>JSON_parse\<close> is \<open>None\<close> where \<open>JSON.parse\<close> throws; \<open>Date_parse\<close> is the date parsing
  of \<open>new Date(v)\<close> for a string or an object (\<open>None\<close> is an invalid date);
  \<open>fetch\<close> is the outcome of a request; \<open>geolocation\<close> is the outcome of
  \<open>getCurrentPosition\<close>, \<open>GeoError\<close> covering a denial and the expiry of its timeout;
  \<open>notification_permission\<close> is \<open>None\<close> when the browser has no notifications.
\<close>

record platform =
  JSON_parse :: "string \<Rightarrow> jsval option"
  JSON_stringify :: "jsval \<Rightarrow> string"
  Date_parse :: "jsval \<Rightarrow> int option"
  toISOString :: "int \<Rightarrow> string"
  now :: int
  fetch :: "request \<Rightarrow> fetch_result"
  geolocation :: geo_result
  notification_permission :: "string option"

text \<open>
  The state the client changes: \<open>localStorage\<close>, the toasts shown, the redirects
  scheduled with \<open>setTimeout\<close> (delay in milliseconds and target), the requests handed to
  \<open>fetch\<close>, the query parameters of the address bar, the notifications shown, and the
  module variable \<open>currentLocation\<close>.
\<close>

record world =
  storage :: "string \<rightharpoonup> string"
  toasts :: "(string \<times> string) list"
  timers :: "(nat \<times> string) list"
  sent :: "request list"
  query :: "(string \<times> string) list"
  notifications :: "(string \<times> string) list"
  currentLocation :: jsval

definition API_BASE_URL :: string where
  "API_BASE_URL = ''https://solosafe-backend.onrender.com/api''"

text \<open>
  \<open>redirectAfter delay href\<close> is \<open>setTimeout(() => { window.location.href = href }, delay)\<close>,
  and \<open>issue req\<close> records that \<open>req\<close> was handed to \<open>fetch\<close>.
\<close>

definition showToast :: "string \<Rightarrow> string \<Rightarrow> world \<Rightarrow> world" where
  "showToast message type st = st\<lparr>toasts := toasts st @ [(message, type)]\<rparr>"

definition redirectAfter :: "nat \<Rightarrow> string \<Rightarrow> world \<Rightarrow> world" where
  "redirectAfter delay href st = st\<lparr>timers := timers st @ [(delay, href)]\<rparr>"

definition getItem :: "world \<Rightarrow> string \<Rightarrow> string option" where
  "getItem st k = storage st k"

definition setItem :: "string \<Rightarrow> string \<Rightarrow> world \<Rightarrow> world" where
  "setItem k v st = st\<lparr>storage := (storage st)(k \<mapsto> v)\<rparr>"

definition removeItem :: "string \<Rightarrow> world \<Rightarrow> world" where
  "removeItem k st = st\<lparr>storage := (storage st)(k := None)\<rparr>"

definition issue :: "request \<Rightarrow> world \<Rightarrow> world" where
  "issue req st = st\<lparr>sent := sent st @ [req]\<rparr>"



section \<open>Authentication and user management (bearer-token client)\<close>

text \<open>
  From \<^verbatim>\<open>src/unnamed/part_000\<close>: \<open>getAuthToken\<close> (lines 59 to 76), \<open>getCurrentUser\<close>
  (82 to 111), \<open>fetchUserProfile\<close> (116 to 151), \<open>handleGoogleCallback\<close> (157 to 200),
  \<open>updateUserProfile\<close> (205 to 213) and \<open>logout\<close> (229 to 252).
\<close>

text \<open>
  \<open>getAuthToken\<close>: the token of the stored user record when there is one, the stored
  Google token otherwise. A record that does not parse, or whose token cannot be read,
  is logged and skipped.
\<close>

definition getAuthToken :: "platform \<Rightarrow> world \<Rightarrow> jsval" where
  "getAuthToken P st =
     (let fromUser =
        (case getItem st ''solosafe_user'' of
           None \<Rightarrow> None
         | Some userStr \<Rightarrow>
             if userStr \<noteq> [] \<and> userStr \<noteq> ''undefined'' \<and> userStr \<noteq> ''null''
             then (case JSON_parse P userStr of
                     None \<Rightarrow> None
                   | Some userData \<Rightarrow>
                       (case getProp userData ''token'' of
                          Inl err \<Rightarrow> None
                        | Inr t \<Rightarrow> if truthy t then Some t else None))
             else None)
      in case fromUser of
           Some t \<Rightarrow> t
         | None \<Rightarrow>
             (case getItem st ''solosafe_token'' of
                None \<Rightarrow> JNull
              | Some googleToken \<Rightarrow> if googleToken \<noteq> [] then JStr googleToken else JNull))"

text \<open>
  The \<open>try\<close> block of \<open>getCurrentUser\<close>: parse, then flatten the regular-login
  structure \<open>{ token, user: {...} }\<close> into \<open>{ ...data.user, token: data.token }\<close>; the
  Google structure is returned as it is.
\<close>

definition getCurrentUser_try :: "platform \<Rightarrow> string \<Rightarrow> exn + jsval" where
  "getCurrentUser_try P userStr =
     (case JSON_parse P userStr of
        None \<Rightarrow> Inl SyntaxError
      | Some data \<Rightarrow>
          (case getProp data ''user'' of
             Inl err \<Rightarrow> Inl err
           | Inr u \<Rightarrow>
               if truthy u
               then (case getProp data ''token'' of
                       Inl err \<Rightarrow> Inl err
                     | Inr t \<Rightarrow> Inr (JObj (put ''token'' t (ownProps u))))
               else Inr data))"

definition getCurrentUser :: "platform \<Rightarrow> world \<Rightarrow> (exn + jsval) \<times> world" where
  "getCurrentUser P st =
     (case getItem st ''solosafe_user'' of
        None \<Rightarrow> (Inr JNull, st)
      | Some userStr \<Rightarrow>
          if userStr = [] \<or> userStr = ''undefined'' \<or> userStr = ''null''
          then (Inr JNull, st)
          else (case getCurrentUser_try P userStr of
                  Inr v \<Rightarrow> (Inr v, st)
                | Inl err \<Rightarrow> (Inr JNull, removeItem ''solosafe_user'' st)))"

definition profile_request :: "jsval \<Rightarrow> request" where
  "profile_request token =
     \<lparr>url = API_BASE_URL @ ''/auth/profile'',
      http_method = Some ''GET'',
      headers = [(''Content-Type'', ''application/json''),
                 (''Authorization'', ''Bearer '' @ toStr token)],
      body = None,
      credentials = None\<rparr>"

definition fetchUserProfile :: "platform \<Rightarrow> world \<Rightarrow> (exn + jsval) \<times> world" where
  "fetchUserProfile P st =
     (let token = getAuthToken P st in
      if \<not> truthy token then (Inl (Error ''No authentication token found''), st)
      else
        let st1 = issue (profile_request token) st in
        case fetch P (profile_request token) of
          NetworkError \<Rightarrow> (Inl NetworkFailure, st1)
        | Response r \<Rightarrow>
            if \<not> ok r then (Inl (Error ''Failed to fetch user profile''), st1)
            else (case json r of
                    None \<Rightarrow> (Inl SyntaxError, st1)
                  | Some userData \<Rightarrow>
                      let userToStore = JObj (put ''token'' token (ownProps userData))
                      in (Inr userToStore,
                          setItem ''solosafe_user'' (JSON_stringify P userToStore) st1)))"

text \<open>
  \<open>handleGoogleCallback\<close>. \<open>params.get('token')\<close> is the first \<open>token\<close> parameter of the
  address bar; \<open>history.replaceState\<close> to origin and path drops every query parameter
  and loads nothing.
\<close>

definition welcome_text :: "jsval \<Rightarrow> string" where
  "welcome_text user =
     (let name = (case getProp user ''name'' of Inr v \<Rightarrow> v | Inl err \<Rightarrow> JUndefined);
          email = (case getProp user ''email'' of Inr v \<Rightarrow> v | Inl err \<Rightarrow> JUndefined)
      in ''Welcome '' @ toStr (if truthy name then name else email) @ ''!'')"

definition handleGoogleCallback :: "platform \<Rightarrow> world \<Rightarrow> bool \<times> world" where
  "handleGoogleCallback P st =
     (case map_of (query st) ''token'' of
        None \<Rightarrow> (False, st)
      | Some token \<Rightarrow>
          if token = [] then (False, st)
          else (case fetchUserProfile P (setItem ''solosafe_token'' token st) of
                  (Inr user, st2) \<Rightarrow>
                    (True,
                     showToast (welcome_text user) ''success''
                       ((removeItem ''solosafe_token'' st2)\<lparr>query := []\<rparr>))
                | (Inl err, st2) \<Rightarrow>
                    (False,
                     redirectAfter 20000 ''login.html''
                       (removeItem ''solosafe_user''
                         (removeItem ''solosafe_token''
                           (showToast ''Authentication failed. Please try again.'' ''error''
                             st2))))))"

definition updateUserProfile :: "platform \<Rightarrow> jsval \<Rightarrow> world \<Rightarrow> (exn + jsval) \<times> world" where
  "updateUserProfile P updates st =
     (case getCurrentUser P st of
        (Inl err, st1) \<Rightarrow> (Inl err, st1)
      | (Inr user, st1) \<Rightarrow>
          if \<not> truthy user then (Inr JNull, st1)
          else
            let updatedUser = JObj (spread (ownProps user) (ownProps updates))
            in (Inr updatedUser,
                setItem ''solosafe_user'' (JSON_stringify P updatedUser) st1))"

definition logout_request :: "jsval \<Rightarrow> request" where
  "logout_request token =
     \<lparr>url = API_BASE_URL @ ''/auth/logout'',
      http_method = Some ''POST'',
      headers = [(''Authorization'', ''Bearer '' @ toStr token)],
      body = None,
      credentials = None\<rparr>"

definition logout :: "platform \<Rightarrow> world \<Rightarrow> world" where
  "logout P st =
     (let token = getAuthToken P st;
          st1 = (if truthy token then issue (logout_request token) st else st)
      in redirectAfter 1000 ''index.html''
           (showToast ''Logged out successfully'' ''success''
             (removeItem ''solosafe_temp_signup''
               (removeItem ''solosafe_trips''
                 (removeItem ''solosafe_token''
                   (removeItem ''solosafe_user'' st1))))))"

section \<open>Authenticated fetch (bearer-token client)\<close>

text \<open>
  From \<^verbatim>\<open>src/unnamed/part_000\<close>: \<open>authenticatedFetch\<close> (lines 262 to 303). Its callers
  pass a method, a body and, possibly, headers.
\<close>

record options =
  opt_method :: "string option"
  opt_body :: "string option"
  opt_headers :: "(string \<times> string) list option"

definition no_options :: options where
  "no_options = \<lparr>opt_method = None, opt_body = None, opt_headers = None\<rparr>"

text \<open>
  \<open>mergedOptions = { ...defaultOptions, ...options }\<close>: the default headers hold the
  content type, the bearer token and the caller's headers, and a \<open>headers\<close> property of
  \<open>options\<close> replaces them as a whole.
\<close>

definition mergedOptions :: "jsval \<Rightarrow> string \<Rightarrow> options \<Rightarrow> request" where
  "mergedOptions token target opts =
     (let defaultHeaders =
            spread [(''Content-Type'', ''application/json''),
                    (''Authorization'', ''Bearer '' @ toStr token)]
                   (case opt_headers opts of Some h \<Rightarrow> h | None \<Rightarrow> [])
      in \<lparr>url = target,
          http_method = opt_method opts,
          headers = (case opt_headers opts of Some h \<Rightarrow> h | None \<Rightarrow> defaultHeaders),
          body = opt_body opts,
          credentials = None\<rparr>)"

definition authenticatedFetch ::
  "platform \<Rightarrow> string \<Rightarrow> options \<Rightarrow> world \<Rightarrow> (exn + response option) \<times> world" where
  "authenticatedFetch P target opts st =
     (let token = getAuthToken P st in
      if \<not> truthy token
      then (Inr None,
            redirectAfter 1000 ''login.html'' (showToast ''Please login first'' ''warning'' st))
      else
        let req = mergedOptions token target opts;
            st1 = issue req st
        in case fetch P req of
             NetworkError \<Rightarrow>
               (Inl NetworkFailure,
                showToast ''Network error. Please try again.'' ''error'' st1)
           | Response r \<Rightarrow>
               if status r = 401
               then (Inr None,
                     redirectAfter 1500 ''login.html''
                       (removeItem ''solosafe_token''
                         (removeItem ''solosafe_user''
                           (showToast ''Session expired. Please login again.'' ''warning''
                             st1))))
               else (Inr (Some r), st1))"


section \<open>Trip management (bearer-token client)\<close>

text \<open>
  From \<^verbatim>\<open>src/unnamed/part_000\<close>: \<open>getAllTrips\<close> (lines 339 to 358) and
  \<open>getCurrentTrip\<close> (363 to 378).
\<close>

definition isArray :: "jsval \<Rightarrow> bool" where
  "isArray v = (case v of JArr xs \<Rightarrow> True | _ \<Rightarrow> False)"

definition elements :: "jsval \<Rightarrow> jsval list" where
  "elements v = (case v of JArr xs \<Rightarrow> xs | _ \<Rightarrow> [])"

text \<open>\<open>getAllTrips\<close> answers with an array: the fetched one, or the empty one.\<close>

definition getAllTrips :: "platform \<Rightarrow> world \<Rightarrow> jsval list \<times> world" where
  "getAllTrips P st =
     (case authenticatedFetch P (API_BASE_URL @ ''/trips'') no_options st of
        (Inl err, st1) \<Rightarrow> ([], st1)
      | (Inr None, st1) \<Rightarrow> ([], st1)
      | (Inr (Some r), st1) \<Rightarrow>
          (case json r of
             None \<Rightarrow> ([], st1)
           | Some trips \<Rightarrow>
               if ok r \<and> isArray trips
               then (elements trips,
                     setItem ''solosafe_trips'' (JSON_stringify P trips) st1)
               else ([], st1)))"

text \<open>
  \<open>new Date(v)\<close> as a time value in milliseconds, \<open>None\<close> for an invalid date. A
  comparison with an invalid date is false.
\<close>

fun new_Date :: "platform \<Rightarrow> jsval \<Rightarrow> int option" where
  "new_Date P JUndefined = None"
| "new_Date P JNull = Some 0"
| "new_Date P (JBool b) = Some (if b then 1 else 0)"
| "new_Date P (JNum n) = (if \<bar>n\<bar> \<le> 8640000000000000 then Some n else None)"
| "new_Date P v = Date_parse P v"

definition date_le :: "int option \<Rightarrow> int option \<Rightarrow> bool" where
  "date_le a b = (case (a, b) of (Some x, Some y) \<Rightarrow> x \<le> y | _ \<Rightarrow> False)"

text \<open>The callback of \<open>trips.find\<close>: started, not ended, not completed.\<close>

definition started_not_ended :: "platform \<Rightarrow> jsval \<Rightarrow> exn + bool" where
  "started_not_ended P t =
     (case getProp t ''startDate'' of
        Inl err \<Rightarrow> Inl err
      | Inr sd \<Rightarrow>
          (case getProp t ''endDate'' of
             Inl err \<Rightarrow> Inl err
           | Inr ed \<Rightarrow>
               (case getProp t ''status'' of
                  Inl err \<Rightarrow> Inl err
                | Inr s \<Rightarrow>
                    Inr (date_le (new_Date P sd) (Some (now P))
                         \<and> date_le (Some (now P)) (new_Date P ed)
                         \<and> s \<noteq> JStr ''Completed''))))"

text \<open>\<open>Array.prototype.find\<close>: the first element the callback accepts, or \<open>undefined\<close>.\<close>

fun find_js :: "(jsval \<Rightarrow> exn + bool) \<Rightarrow> jsval list \<Rightarrow> exn + jsval" where
  "find_js f [] = Inr JUndefined"
| "find_js f (t # ts) =
     (case f t of
        Inl err \<Rightarrow> Inl err
      | Inr b \<Rightarrow> if b then Inr t else find_js f ts)"

definition or_null :: "jsval \<Rightarrow> jsval" where
  "or_null v = (if truthy v then v else JNull)"

definition getCurrentTrip :: "platform \<Rightarrow> world \<Rightarrow> jsval \<times> world" where
  "getCurrentTrip P st =
     (case getAllTrips P st of
        (trips, st1) \<Rightarrow>
          (case find_js (started_not_ended P) trips of
             Inl err \<Rightarrow> (JNull, st1)
           | Inr v \<Rightarrow> (or_null v, st1)))"

section \<open>Geolocation, check-in and SOS (bearer-token client)\<close>










section \<open>The session-cookie client (script.js)\<close>

text \<open>
  From \<^verbatim>\<open>src/script.js\<close>: \<open>authenticatedFetch\<close> (lines 91 to 121), \<open>getCurrentUser\<close>
  (127 to 141), \<open>updateUserProfile\<close> (143 to 151), \<open>logout\<close> (164 to 180) and
  \<open>getCurrentTrip\<close> (210 to 228). This client keeps no token: its requests rely on the
  session cookie, its user record is returned as parsed, and its current trip is the
  first one the server marks \<open>active\<close>.
\<close>

definition mergedOptions_session :: "string \<Rightarrow> options \<Rightarrow> request" where
  "mergedOptions_session target opts =
     (let defaultHeaders =
            spread [(''Content-Type'', ''application/json'')]
                   (case opt_headers opts of Some h \<Rightarrow> h | None \<Rightarrow> [])
      in \<lparr>url = target,
          http_method = opt_method opts,
          headers = (case opt_headers opts of Some h \<Rightarrow> h | None \<Rightarrow> defaultHeaders),
          body = opt_body opts,
          credentials = None\<rparr>)"

definition authenticatedFetch_session ::
  "platform \<Rightarrow> string \<Rightarrow> options \<Rightarrow> world \<Rightarrow> (exn + response option) \<times> world" where
  "authenticatedFetch_session P target opts st =
     (let req = mergedOptions_session target opts;
          st1 = issue req st
      in case fetch P req of
           NetworkError \<Rightarrow>
             (Inl NetworkFailure,
              showToast ''Network error. Please try again.'' ''error'' st1)
         | Response r \<Rightarrow>
             if status r = 401
             then (Inr None,
                   redirectAfter 1500 ''login.html''
                     (removeItem ''solosafe_user''
                       (showToast ''Session expired. Please login again.'' ''warning'' st1)))
             else (Inr (Some r), st1))"

definition getCurrentUser_session :: "platform \<Rightarrow> world \<Rightarrow> (exn + jsval) \<times> world" where
  "getCurrentUser_session P st =
     (case getItem st ''solosafe_user'' of
        None \<Rightarrow> (Inr JNull, st)
      | Some userStr \<Rightarrow>
          if userStr = [] \<or> userStr = ''undefined'' \<or> userStr = ''null''
          then (Inr JNull, st)
          else (case JSON_parse P userStr of
                  Some v \<Rightarrow> (Inr v, st)
                | None \<Rightarrow> (Inr JNull, removeItem ''solosafe_user'' st)))"

definition updateUserProfile_session ::
  "platform \<Rightarrow> jsval \<Rightarrow> world \<Rightarrow> (exn + jsval) \<times> world" where
  "updateUserProfile_session P updates st =
     (case getCurrentUser_session P st of
        (Inl err, st1) \<Rightarrow> (Inl err, st1)
      | (Inr user, st1) \<Rightarrow>
          if \<not> truthy user then (Inr JNull, st1)
          else
            let updatedUser = JObj (spread (ownProps user) (ownProps updates))
            in (Inr updatedUser,
                setItem ''solosafe_user'' (JSON_stringify P updatedUser) st1))"

definition logout_request_session :: request where
  "logout_request_session =
     \<lparr>url = ''https://solosafe-backend.onrender.com/api/auth/logout'',
      http_method = Some ''POST'',
      headers = [],
      body = None,
      credentials = Some ''include''\<rparr>"

definition logout_session :: "platform \<Rightarrow> world \<Rightarrow> world" where
  "logout_session P st =
     redirectAfter 1000 ''index.html''
       (showToast ''Logged out successfully'' ''success''
         (removeItem ''solosafe_temp_signup''
           (removeItem ''solosafe_trips''
             (removeItem ''solosafe_user'' (issue logout_request_session st)))))"

definition status_active :: "jsval \<Rightarrow> exn + bool" where
  "status_active t =
     (case getProp t ''status'' of
        Inl err \<Rightarrow> Inl err
      | Inr s \<Rightarrow> Inr (s = JStr ''active''))"

text \<open>
  \<open>data.trips.find(...)\<close> on what the server sent: a truthy \<open>trips\<close> that is not an array
  has no \<open>find\<close>, and the TypeError ends in the \<open>catch\<close>.
\<close>

definition getCurrentTrip_session :: "platform \<Rightarrow> world \<Rightarrow> jsval \<times> world" where
  "getCurrentTrip_session P st =
     (case authenticatedFetch_session P ''https://solosafe-backend.onrender.com/api/trips''
             no_options st of
        (Inl err, st1) \<Rightarrow> (JNull, st1)
      | (Inr None, st1) \<Rightarrow> (JNull, st1)
      | (Inr (Some r), st1) \<Rightarrow>
          (case json r of
             None \<Rightarrow> (JNull, st1)
           | Some data \<Rightarrow>
               if \<not> ok r then (JNull, st1)
               else (case getProp data ''trips'' of
                       Inl err \<Rightarrow> (JNull, st1)
                     | Inr trips \<Rightarrow>
                         if \<not> truthy trips then (JNull, st1)
                         else (case trips of
                                 JArr ts \<Rightarrow>
                                   (case find_js status_active ts of
                                      Inl err \<Rightarrow> (JNull, st1)
                                    | Inr v \<Rightarrow> (or_null v, st1))
                               | _ \<Rightarrow> (JNull, st1)))))"


section \<open>A reference JSON codec and a reference browser\<close>

text \<open>
  The operations above hold for whatever \<open>JSON.parse\<close> and \<open>JSON.stringify\<close> the browser
  has. The examples below run them on a reader and a writer of JSON texts made of
  objects, arrays, strings with the escapes \<open>\"\<close>, \<open>\\\<close>, \<open>\/\<close>, \<open>\n\<close>, \<open>\r\<close>, \<open>\t\<close>,
  integers, \<open>true\<close>, \<open>false\<close> and \<open>null\<close>. The reader takes fuel: twice the length of
  the text is more than the number of values a text can hold. As in JavaScript the
  writer leaves out a property whose value is \<open>undefined\<close> and writes \<open>null\<close> for such
  an array element, and in an object the last of two equal keys wins.
\<close>

definition is_ws :: "char \<Rightarrow> bool" where
  "is_ws c = (c = CHR '' '' \<or> c = CHR 0x0A \<or> c = CHR 0x0D \<or> c = CHR 0x09)"

fun skip_ws :: "string \<Rightarrow> string" where
  "skip_ws [] = []"
| "skip_ws (c # cs) = (if is_ws c then skip_ws cs else c # cs)"

definition unescape :: "char \<Rightarrow> char option" where
  "unescape c =
     (if c = CHR 0x22 \<or> c = CHR 0x5C \<or> c = CHR ''/'' then Some c
      else if c = CHR ''n'' then Some (CHR 0x0A)
      else if c = CHR ''r'' then Some (CHR 0x0D)
      else if c = CHR ''t'' then Some (CHR 0x09)
      else None)"

fun read_string :: "string \<Rightarrow> string \<Rightarrow> (string \<times> string) option" where
  "read_string acc [] = None"
| "read_string acc [c] = (if c = CHR 0x22 then Some (rev acc, []) else None)"
| "read_string acc (c # d # cs) =
     (if c = CHR 0x22 then Some (rev acc, d # cs)
      else if c = CHR 0x5C
      then (case unescape d of None \<Rightarrow> None | Some e \<Rightarrow> read_string (e # acc) cs)
      else if of_char c < (32 :: nat) then None
      else read_string (c # acc) (d # cs))"

definition is_digit :: "char \<Rightarrow> bool" where
  "is_digit c = (c \<in> set ''0123456789'')"

definition digit_value :: "char \<Rightarrow> int" where
  "digit_value c = int (of_char c) - 48"

definition read_number :: "string \<Rightarrow> (jsval \<times> string) option" where
  "read_number s =
     (let neg = (take 1 s = ''-'');
          t = (if neg then drop 1 s else s);
          ds = takeWhile is_digit t;
          n = foldl (\<lambda>a c. 10 * a + digit_value c) 0 ds
      in if ds = [] \<or> (length ds > 1 \<and> hd ds = CHR ''0'') then None
         else Some (JNum (if neg then - n else n), dropWhile is_digit t))"

fun read_value :: "nat \<Rightarrow> string \<Rightarrow> (jsval \<times> string) option"
and read_elements :: "nat \<Rightarrow> string \<Rightarrow> (jsval list \<times> string) option"
and read_members :: "nat \<Rightarrow> string \<Rightarrow> ((string \<times> jsval) list \<times> string) option"
where
  "read_value 0 s = None"
| "read_value (Suc n) s =
     (case skip_ws s of
        [] \<Rightarrow> None
      | c # cs \<Rightarrow>
          if c = CHR ''{''
          then (if take 1 (skip_ws cs) = ''}'' then Some (JObj [], drop 1 (skip_ws cs))
                else (case read_members n cs of
                        None \<Rightarrow> None
                      | Some (ms, r) \<Rightarrow> Some (JObj (spread [] ms), r)))
          else if c = CHR ''[''
          then (if take 1 (skip_ws cs) = '']'' then Some (JArr [], drop 1 (skip_ws cs))
                else (case read_elements n cs of
                        None \<Rightarrow> None
                      | Some (vs, r) \<Rightarrow> Some (JArr vs, r)))
          else if c = CHR 0x22
          then (case read_string [] cs of
                  None \<Rightarrow> None
                | Some (str, r) \<Rightarrow> Some (JStr str, r))
          else if take 4 (c # cs) = ''null'' then Some (JNull, drop 4 (c # cs))
          else if take 4 (c # cs) = ''true'' then Some (JBool True, drop 4 (c # cs))
          else if take 5 (c # cs) = ''false'' then Some (JBool False, drop 5 (c # cs))
          else read_number (c # cs))"
| "read_elements 0 s = None"
| "read_elements (Suc n) s =
     (case read_value n s of
        None \<Rightarrow> None
      | Some (v, r) \<Rightarrow>
          (case skip_ws r of
             [] \<Rightarrow> None
           | c # cs \<Rightarrow>
               if c = CHR '','' then
                 (case read_elements n cs of
                    None \<Rightarrow> None
                  | Some (vs, r') \<Rightarrow> Some (v # vs, r'))
               else if c = CHR '']'' then Some ([v], cs)
               else None))"
| "read_members 0 s = None"
| "read_members (Suc n) s =
     (case skip_ws s of
        [] \<Rightarrow> None
      | q # qs \<Rightarrow>
          if q \<noteq> CHR 0x22 then None
          else (case read_string [] qs of
                  None \<Rightarrow> None
                | Some (k, r) \<Rightarrow>
                    (case skip_ws r of
                       [] \<Rightarrow> None
                     | c # cs \<Rightarrow>
                         if c \<noteq> CHR '':'' then None
                         else (case read_value n cs of
                                 None \<Rightarrow> None
                               | Some (v, r') \<Rightarrow>
                                   (case skip_ws r' of
                                      [] \<Rightarrow> None
                                    | e # es \<Rightarrow>
                                        if e = CHR '','' then
                                          (case read_members n es of
                                             None \<Rightarrow> None
                                           | Some (ms, r'') \<Rightarrow> Some ((k, v) # ms, r''))
                                        else if e = CHR ''}'' then Some ([(k, v)], es)
                                        else None)))))"

definition reference_parse :: "string \<Rightarrow> jsval option" where
  "reference_parse s =
     (case read_value (Suc (2 * length s)) s of
        None \<Rightarrow> None
      | Some (v, r) \<Rightarrow> if skip_ws r = [] then Some v else None)"

definition escape :: "char \<Rightarrow> string" where
  "escape c =
     (if c = CHR 0x22 then [CHR 0x5C, CHR 0x22]
      else if c = CHR 0x5C then [CHR 0x5C, CHR 0x5C]
      else if c = CHR 0x0A then [CHR 0x5C, CHR ''n'']
      else if c = CHR 0x0D then [CHR 0x5C, CHR ''r'']
      else if c = CHR 0x09 then [CHR 0x5C, CHR ''t'']
      else [c])"

definition quote :: "string \<Rightarrow> string" where
  "quote s = [CHR 0x22] @ concat (map escape s) @ [CHR 0x22]"

fun write_value :: "jsval \<Rightarrow> string"
and write_elements :: "jsval list \<Rightarrow> string list"
and write_members :: "(string \<times> jsval) list \<Rightarrow> string list"
where
  "write_value JUndefined = ''undefined''"
| "write_value JNull = ''null''"
| "write_value (JBool b) = (if b then ''true'' else ''false'')"
| "write_value (JNum n) = toStr (JNum n)"
| "write_value (JStr s) = quote s"
| "write_value (JArr xs) = ''['' @ intercalate '','' (write_elements xs) @ '']''"
| "write_value (JObj ps) = ''{'' @ intercalate '','' (write_members ps) @ ''}''"
| "write_elements [] = []"
| "write_elements (x # xs) =
     (if x = JUndefined then ''null'' else write_value x) # write_elements xs"
| "write_members [] = []"
| "write_members (p # ps) =
     (if snd p = JUndefined then write_members ps
      else (quote (fst p) @ '':'' @ write_value (snd p)) # write_members ps)"


definition reference_stringify :: "jsval \<Rightarrow> string" where
  "reference_stringify v = write_value v"

text \<open>
  The reference browser: dates are understood as numbers of milliseconds only, the
  clock stands at \<open>clock\<close>, and a time is rendered by its number.
\<close>

definition browser :: "int \<Rightarrow> (request \<Rightarrow> fetch_result) \<Rightarrow> geo_result \<Rightarrow> platform" where
  "browser clock net geo =
     \<lparr>JSON_parse = reference_parse,
      JSON_stringify = reference_stringify,
      Date_parse = (\<lambda>v. None),
      toISOString = (\<lambda>t. toStr (JNum t)),
      now = clock,
      fetch = net,
      geolocation = geo,
      notification_permission = Some ''granted''\<rparr>"

definition blank :: world where
  "blank =
     \<lparr>storage = Map.empty,
      toasts = [],
      timers = [],
      sent = [],
      query = [],
      notifications = [],
      currentLocation = JNull\<rparr>"

definition stored :: "(string \<times> string) list \<Rightarrow> world" where
  "stored items = blank\<lparr>storage := map_of items\<rparr>"

definition answering :: "nat \<Rightarrow> jsval option \<Rightarrow> request \<Rightarrow> fetch_result" where
  "answering code payload req = Response \<lparr>status = code, json = payload\<rparr>"

section \<open>Notions of the specification\<close>

definition field :: "jsval \<Rightarrow> string \<Rightarrow> jsval" where
  "field v k = (case getProp v k of Inr x \<Rightarrow> x | Inl err \<Rightarrow> JUndefined)"

definition is_object :: "jsval \<Rightarrow> bool" where
  "is_object v = (case v of JObj ps \<Rightarrow> True | _ \<Rightarrow> False)"

text \<open>
  The current trip in the words of the specification: the interval from \<open>startDate\<close> to
  \<open>endDate\<close> contains now, and the status is not the terminal one.
\<close>

definition contains_now :: "platform \<Rightarrow> jsval \<Rightarrow> bool" where
  "contains_now P t =
     (case (new_Date P (field t ''startDate''), new_Date P (field t ''endDate'')) of
        (Some s, Some e) \<Rightarrow> s \<le> now P \<and> now P \<le> e
      | _ \<Rightarrow> False)"

definition current_trip :: "platform \<Rightarrow> jsval \<Rightarrow> bool" where
  "current_trip P t = (contains_now P t \<and> field t ''status'' \<noteq> JStr ''Completed'')"

definition marked_active :: "jsval \<Rightarrow> bool" where
  "marked_active t = (field t ''status'' = JStr ''active'')"

definition first_or_null :: "(jsval \<Rightarrow> bool) \<Rightarrow> jsval list \<Rightarrow> jsval" where
  "first_or_null p ts = (case List.find p ts of Some t \<Rightarrow> t | None \<Rightarrow> JNull)"

text \<open>The storage holds the text \<open>s\<close> of a session record that parses to \<open>v\<close>.\<close>

definition holds_record :: "platform \<Rightarrow> world \<Rightarrow> string \<Rightarrow> jsval \<Rightarrow> bool" where
  "holds_record P st s v =
     (getItem st ''solosafe_user'' = Some s
      \<and> s \<noteq> [] \<and> s \<noteq> ''undefined'' \<and> s \<noteq> ''null''
      \<and> JSON_parse P s = Some v)"

text \<open>A value that comes back from the storage as it was written.\<close>

definition reads_back :: "platform \<Rightarrow> jsval \<Rightarrow> bool" where
  "reads_back P v =
     (JSON_stringify P v \<noteq> []
      \<and> JSON_stringify P v \<noteq> ''undefined''
      \<and> JSON_stringify P v \<noteq> ''null''
      \<and> JSON_parse P (JSON_stringify P v) = Some v)"

text \<open>The keys of an object are distinct.\<close>

definition distinct_keys :: "(string \<times> jsval) list \<Rightarrow> bool" where
  "distinct_keys ps = distinct (map fst ps)"

text \<open>Trips for the examples: dates as numbers of milliseconds.\<close>

definition day :: int where
  "day = 86400000"

definition trip :: "int \<Rightarrow> int \<Rightarrow> string \<Rightarrow> jsval" where
  "trip from until state =
     JObj [(''startDate'', JNum from), (''endDate'', JNum until), (''status'', JStr state)]"

text \<open>Two objects with the same properties and the same values, in whatever order.\<close>

definition same_object :: "jsval \<Rightarrow> jsval \<Rightarrow> bool" where
  "same_object a b =
     (is_object a \<and> is_object b \<and> map_of (ownProps a) = map_of (ownProps b))"

section \<open>Properties\<close>

lemmas world_ops =
  showToast_def redirectAfter_def getItem_def setItem_def removeItem_def issue_def

lemma map_of_put: "map_of (put k v ps) = (map_of ps)(k \<mapsto> v)"
  by (induction ps) auto

lemma fetch_browser: "fetch (browser clock net geo) req = net req"
  by (simp add: browser_def)

lemma JSON_parse_browser: "JSON_parse (browser clock net geo) = reference_parse"
  by (simp add: browser_def)

lemma JSON_stringify_browser: "JSON_stringify (browser clock net geo) = reference_stringify"
  by (simp add: browser_def)

lemma reference_parse_truncated: "reference_parse ''{bad'' = None"
  by code_simp

lemma map_of_spread:
  "distinct (map fst src) \<Longrightarrow> map_of (spread target src) = map_of target ++ map_of src"
proof (induction src arbitrary: target)
  case Nil
  then show ?case by simp
next
  case (Cons p ps)
  then have fresh: "map_of ps (fst p) = None"
    by (simp add: map_of_eq_None_iff)
  have "map_of (spread target (p # ps)) = (map_of target)(fst p \<mapsto> snd p) ++ map_of ps"
    using Cons by (simp add: map_of_put)
  also have "\<dots> = map_of target ++ map_of (p # ps)"
    using fresh by (cases p) (auto simp add: fun_eq_iff map_add_def split: option.splits)
  finally show ?case .
qed

subsection \<open>The gateway on an authentication-rejected response\<close>

text \<open>
  C2. When the response to a gateway call has status 401, \<open>authenticatedFetch\<close> removes
  the persisted session (the user record and, in the bearer-token client, the stored
  token), schedules one redirect to the login view, adds nothing else to the timers,
  and hands the caller \<open>null\<close> in place of the response. This holds in both clients; in
  the bearer-token client a response exists only when a token was found.
\<close>

theorem gateway_401:
  "(truthy (getAuthToken P st)
      \<and> fetch P (mergedOptions (getAuthToken P st) target opts) = Response r
      \<and> status r = 401
    \<longrightarrow> authenticatedFetch P target opts st =
         (Inr None,
          st\<lparr>storage := (storage st)(''solosafe_user'' := None, ''solosafe_token'' := None),
             toasts := toasts st @ [(''Session expired. Please login again.'', ''warning'')],
             timers := timers st @ [(1500, ''login.html'')],
             sent := sent st @ [mergedOptions (getAuthToken P st) target opts]\<rparr>))
   \<and> (fetch P (mergedOptions_session target opts) = Response r \<and> status r = 401
    \<longrightarrow> authenticatedFetch_session P target opts st =
         (Inr None,
          st\<lparr>storage := (storage st)(''solosafe_user'' := None),
             toasts := toasts st @ [(''Session expired. Please login again.'', ''warning'')],
             timers := timers st @ [(1500, ''login.html'')],
             sent := sent st @ [mergedOptions_session target opts]\<rparr>))"
  by (simp add: authenticatedFetch_def authenticatedFetch_session_def Let_def world_ops)

theorem gateway_401_witness:
  "let P = browser 0 (answering 401 None) GeoError;
       w = stored [(''solosafe_user'', ''null''), (''solosafe_token'', ''T'')]
   in truthy (getAuthToken P w)
      \<and> authenticatedFetch P ''/trips'' no_options w =
          (Inr None,
           w\<lparr>storage := Map.empty,
              toasts := [(''Session expired. Please login again.'', ''warning'')],
              timers := [(1500, ''login.html'')],
              sent := [mergedOptions (JStr ''T'') ''/trips'' no_options]\<rparr>)
      \<and> authenticatedFetch_session P ''/trips'' no_options w =
          (Inr None,
           w\<lparr>storage := [''solosafe_token'' \<mapsto> ''T''],
              toasts := [(''Session expired. Please login again.'', ''warning'')],
              timers := [(1500, ''login.html'')],
              sent := [mergedOptions_session ''/trips'' no_options]\<rparr>)"
proof -
  let ?P = "browser 0 (answering 401 None) GeoError"
  let ?w = "stored [(''solosafe_user'', ''null''), (''solosafe_token'', ''T'')]"
  have tok: "getAuthToken ?P ?w = JStr ''T''"
    by (simp add: getAuthToken_def stored_def blank_def getItem_def)
  have net: "fetch ?P q = Response \<lparr>status = 401, json = None\<rparr>" for q
    by (simp add: fetch_browser answering_def)
  note rejected = gateway_401 [where P = ?P and st = ?w and target = "''/trips''"
      and opts = no_options and r = "\<lparr>status = 401, json = None\<rparr>"]
  have a: "authenticatedFetch ?P ''/trips'' no_options ?w =
      (Inr None,
       ?w\<lparr>storage := (storage ?w)(''solosafe_user'' := None, ''solosafe_token'' := None),
          toasts := toasts ?w @ [(''Session expired. Please login again.'', ''warning'')],
          timers := timers ?w @ [(1500, ''login.html'')],
          sent := sent ?w @ [mergedOptions (JStr ''T'') ''/trips'' no_options]\<rparr>)"
    using rejected by (simp add: tok net)
  have b: "authenticatedFetch_session ?P ''/trips'' no_options ?w =
      (Inr None,
       ?w\<lparr>storage := (storage ?w)(''solosafe_user'' := None),
          toasts := toasts ?w @ [(''Session expired. Please login again.'', ''warning'')],
          timers := timers ?w @ [(1500, ''login.html'')],
          sent := sent ?w @ [mergedOptions_session ''/trips'' no_options]\<rparr>)"
    using rejected by (simp add: net)
  show ?thesis
    unfolding Let_def a b by (simp add: tok) (simp add: stored_def blank_def fun_eq_iff)
qed

subsection \<open>The gateway without a credential\<close>

text \<open>
  C3, as the two clients have it. In the bearer-token client a gateway call made while
  \<open>getAuthToken\<close> finds no credential issues no request: it warns the user, schedules
  a redirect to the login view and hands back \<open>null\<close>, and nothing else changes. The
  session-cookie client keeps no credential in the storage and hands every call to
  the network, whatever the storage holds.
\<close>

theorem gateway_without_credential:
  "(\<not> truthy (getAuthToken P st)
    \<longrightarrow> authenticatedFetch P target opts st =
         (Inr None,
          st\<lparr>toasts := toasts st @ [(''Please login first'', ''warning'')],
             timers := timers st @ [(1000, ''login.html'')]\<rparr>))
   \<and> sent (snd (authenticatedFetch_session P target opts st)) =
       sent st @ [mergedOptions_session target opts]"
  by (simp add: authenticatedFetch_def authenticatedFetch_session_def Let_def world_ops
      split: fetch_result.splits)

theorem gateway_without_credential_witness:
  "let P = browser 0 (answering 200 None) GeoError
   in \<not> truthy (getAuthToken P blank)
      \<and> authenticatedFetch P ''/trips'' no_options blank =
          (Inr None,
           blank\<lparr>toasts := [(''Please login first'', ''warning'')],
                 timers := [(1000, ''login.html'')]\<rparr>)
      \<and> sent (snd (authenticatedFetch P ''/trips'' no_options blank)) = []"
proof -
  let ?P = "browser 0 (answering 200 None) GeoError"
  have tok: "getAuthToken ?P blank = JNull"
    by (simp add: getAuthToken_def blank_def getItem_def)
  have "authenticatedFetch ?P ''/trips'' no_options blank =
      (Inr None,
       blank\<lparr>toasts := toasts blank @ [(''Please login first'', ''warning'')],
             timers := timers blank @ [(1000, ''login.html'')]\<rparr>)"
    using gateway_without_credential [where P = ?P and st = blank and target = "''/trips''"
        and opts = no_options]
    by (simp add: tok)
  then show ?thesis
    by (simp add: tok Let_def) (simp add: blank_def)
qed

text \<open>
  Where C3 fails as stated: the storage is empty, no credential can be retrieved, and
  the gateway of the session-cookie client issues the request all the same.
\<close>

theorem gateway_without_credential_counterexample:
  "getItem blank ''solosafe_user'' = None
   \<and> getItem blank ''solosafe_token'' = None
   \<and> getAuthToken (browser 0 (answering 200 None) GeoError) blank = JNull
   \<and> sent (snd (authenticatedFetch_session (browser 0 (answering 200 None) GeoError)
                  ''/trips'' no_options blank))
       = [mergedOptions_session ''/trips'' no_options]
   \<and> fst (authenticatedFetch_session (browser 0 (answering 200 None) GeoError)
             ''/trips'' no_options blank)
       = Inr (Some \<lparr>status = 200, json = None\<rparr>)"
  by (simp add: authenticatedFetch_session_def getAuthToken_def Let_def world_ops
      fetch_browser answering_def blank_def)

subsection \<open>Logout\<close>

text \<open>
  C7, as the code has it. For every starting storage, \<open>logout\<close> removes the session
  record, the cached trip list and the signup draft (and, in the bearer-token client,
  the stored token), and leaves every other key as it was: the dark-mode flag is not
  among the keys removed.
\<close>

theorem logout_storage:
  "storage (logout P st) =
     (storage st)(''solosafe_user'' := None, ''solosafe_token'' := None,
                  ''solosafe_trips'' := None, ''solosafe_temp_signup'' := None)
   \<and> storage (logout_session P st) =
     (storage st)(''solosafe_user'' := None, ''solosafe_trips'' := None,
                  ''solosafe_temp_signup'' := None)"
  by (simp add: logout_def logout_session_def Let_def world_ops)

theorem logout_storage_witness:
  "let P = browser 0 (answering 200 None) GeoError;
       w = stored [(''solosafe_user'', ''{}''), (''solosafe_trips'', ''[]''),
                   (''solosafe_temp_signup'', ''{}'')]
   in storage (logout P w) = Map.empty \<and> storage (logout_session P w) = Map.empty"
proof -
  let ?P = "browser 0 (answering 200 None) GeoError"
  let ?w = "stored [(''solosafe_user'', ''{}''), (''solosafe_trips'', ''[]''),
                    (''solosafe_temp_signup'', ''{}'')]"
  show ?thesis
    unfolding Let_def
    using logout_storage [where P = ?P and st = ?w]
    by (simp add: stored_def blank_def fun_eq_iff)
qed

text \<open>
  Where C7 fails as stated: a storage that holds the dark-mode flag still holds it
  after \<open>logout\<close>, in both clients.
\<close>

theorem logout_storage_counterexample:
  "getItem (stored [(''solosafe_user'', ''{}''), (''solosafe_dark_mode'', ''true'')])
       ''solosafe_dark_mode'' = Some ''true''
   \<and> getItem (logout (browser 0 (answering 200 None) GeoError)
               (stored [(''solosafe_user'', ''{}''), (''solosafe_dark_mode'', ''true'')]))
       ''solosafe_dark_mode'' = Some ''true''
   \<and> getItem (logout_session (browser 0 (answering 200 None) GeoError)
               (stored [(''solosafe_user'', ''{}''), (''solosafe_dark_mode'', ''true'')]))
       ''solosafe_dark_mode'' = Some ''true''"
  by (simp add: logout_def logout_session_def Let_def world_ops stored_def blank_def)

subsection \<open>Loading a stored value that does not parse\<close>

lemma reference_parse_undefined: "reference_parse ''undefined'' = None"
  by code_simp

text \<open>
  C6, as the code has it. For every stored value that \<open>JSON.parse\<close> rejects,
  \<open>getCurrentUser\<close> returns \<open>null\<close>; it clears the entry unless the value is the empty
  string or one of the literals \<open>undefined\<close> and \<open>null\<close>, which it answers before
  parsing and leaves in place. For every stored value it returns and does not throw.
  Both clients do so.
\<close>

theorem getCurrentUser_unparseable:
  "(getItem st ''solosafe_user'' = Some s \<and> JSON_parse P s = None
    \<longrightarrow> getCurrentUser P st =
          (Inr JNull,
           if s = [] \<or> s = ''undefined'' \<or> s = ''null'' then st
           else removeItem ''solosafe_user'' st)
        \<and> getCurrentUser_session P st =
          (Inr JNull,
           if s = [] \<or> s = ''undefined'' \<or> s = ''null'' then st
           else removeItem ''solosafe_user'' st))
   \<and> (\<exists>v. fst (getCurrentUser P st) = Inr v)
   \<and> (\<exists>v. fst (getCurrentUser_session P st) = Inr v)"
  by (auto simp add: getCurrentUser_def getCurrentUser_session_def getCurrentUser_try_def
      split: option.splits sum.splits)

theorem getCurrentUser_unparseable_witness:
  "let P = browser 0 (answering 200 None) GeoError;
       w = stored [(''solosafe_user'', ''{bad''), (''solosafe_trips'', ''[]'')]
   in getItem w ''solosafe_user'' = Some ''{bad''
      \<and> JSON_parse P ''{bad'' = None
      \<and> getCurrentUser P w = (Inr JNull, stored [(''solosafe_trips'', ''[]'')])
      \<and> getCurrentUser_session P w = (Inr JNull, stored [(''solosafe_trips'', ''[]'')])"
proof -
  let ?P = "browser 0 (answering 200 None) GeoError"
  let ?w = "stored [(''solosafe_user'', ''{bad''), (''solosafe_trips'', ''[]'')]"
  have held: "getItem ?w ''solosafe_user'' = Some ''{bad''"
    by (simp add: getItem_def stored_def)
  have rejected: "JSON_parse ?P ''{bad'' = None"
    by (simp add: JSON_parse_browser reference_parse_truncated)
  have cleared: "removeItem ''solosafe_user'' ?w = stored [(''solosafe_trips'', ''[]'')]"
    by (simp add: removeItem_def stored_def blank_def fun_eq_iff)
  have "getCurrentUser ?P ?w = (Inr JNull, removeItem ''solosafe_user'' ?w)
      \<and> getCurrentUser_session ?P ?w = (Inr JNull, removeItem ''solosafe_user'' ?w)"
    using getCurrentUser_unparseable [where P = ?P and st = ?w and s = "''{bad''"]
      held rejected by simp
  then show ?thesis
    by (simp add: Let_def held rejected cleared)
qed

text \<open>
  Where C6 fails as stated: the stored text \<open>undefined\<close> does not parse, and
  \<open>getCurrentUser\<close> returns \<open>null\<close> with the entry still in the storage.
\<close>

theorem getCurrentUser_unparseable_counterexample:
  "getItem (stored [(''solosafe_user'', ''undefined'')]) ''solosafe_user'' = Some ''undefined''
   \<and> JSON_parse (browser 0 (answering 200 None) GeoError) ''undefined'' = None
   \<and> getCurrentUser (browser 0 (answering 200 None) GeoError)
        (stored [(''solosafe_user'', ''undefined'')])
       = (Inr JNull, stored [(''solosafe_user'', ''undefined'')])
   \<and> getCurrentUser_session (browser 0 (answering 200 None) GeoError)
        (stored [(''solosafe_user'', ''undefined'')])
       = (Inr JNull, stored [(''solosafe_user'', ''undefined'')])"
  by (simp add: getCurrentUser_def getCurrentUser_session_def getItem_def stored_def
      JSON_parse_browser reference_parse_undefined)

subsection \<open>The stored literals undefined and null\<close>

text \<open>
  C10, as the code has it. When the stored session value is the text \<open>undefined\<close> or
  the text \<open>null\<close>, both lookups behave as for an absent entry, whatever \<open>JSON.parse\<close>
  would do with the text, and the entry stays: \<open>getCurrentUser\<close> returns \<open>null\<close>, and
  \<open>getAuthToken\<close> returns what it returns without the entry, which is the stored Google
  token when there is a non-empty one and \<open>null\<close> otherwise. Other text that does not
  parse is cleared by \<open>getCurrentUser\<close>.
\<close>

theorem stored_literals:
  "getItem st ''solosafe_user'' = Some s \<and> (s = ''undefined'' \<or> s = ''null'')
   \<longrightarrow> getCurrentUser P st = (Inr JNull, st)
       \<and> getCurrentUser_session P st = (Inr JNull, st)
       \<and> fst (getCurrentUser P (removeItem ''solosafe_user'' st)) = Inr JNull
       \<and> fst (getCurrentUser_session P (removeItem ''solosafe_user'' st)) = Inr JNull
       \<and> getAuthToken P st = getAuthToken P (removeItem ''solosafe_user'' st)
       \<and> getAuthToken P st =
           (case getItem st ''solosafe_token'' of
              None \<Rightarrow> JNull
            | Some g \<Rightarrow> if g = [] then JNull else JStr g)
       \<and> getCurrentUser (P\<lparr>JSON_parse := f\<rparr>) st = getCurrentUser P st
       \<and> getCurrentUser_session (P\<lparr>JSON_parse := f\<rparr>) st = getCurrentUser_session P st
       \<and> getAuthToken (P\<lparr>JSON_parse := f\<rparr>) st = getAuthToken P st
       \<and> (s' \<noteq> [] \<and> s' \<noteq> ''undefined'' \<and> s' \<noteq> ''null'' \<and> JSON_parse P s' = None
          \<longrightarrow> snd (getCurrentUser P (setItem ''solosafe_user'' s' st)) =
                removeItem ''solosafe_user'' st
              \<and> snd (getCurrentUser_session P (setItem ''solosafe_user'' s' st)) =
                removeItem ''solosafe_user'' st)"
  by (auto simp add: getCurrentUser_def getCurrentUser_session_def getCurrentUser_try_def
      getAuthToken_def getItem_def removeItem_def setItem_def split: option.splits)

theorem stored_literals_witness:
  "let P = browser 0 (answering 200 None) GeoError;
       w = stored [(''solosafe_user'', ''null'')]
   in getItem w ''solosafe_user'' = Some ''null''
      \<and> getCurrentUser P w = (Inr JNull, w)
      \<and> getCurrentUser_session P w = (Inr JNull, w)
      \<and> getAuthToken P w = JNull
      \<and> snd (getCurrentUser P (setItem ''solosafe_user'' ''{bad'' w)) = blank"
proof -
  let ?P = "browser 0 (answering 200 None) GeoError"
  let ?w = "stored [(''solosafe_user'', ''null'')]"
  have held: "getItem ?w ''solosafe_user'' = Some ''null''"
    by (simp add: getItem_def stored_def)
  have none: "getItem ?w ''solosafe_token'' = None"
    by (simp add: getItem_def stored_def blank_def)
  have rejected: "JSON_parse ?P ''{bad'' = None"
    by (simp add: JSON_parse_browser reference_parse_truncated)
  have cleared: "removeItem ''solosafe_user'' ?w = blank"
    by (simp add: removeItem_def stored_def blank_def fun_eq_iff)
  from stored_literals [where P = ?P and st = ?w and s = "''null''" and s' = "''{bad''"]
    held rejected
  have a: "getCurrentUser ?P ?w = (Inr JNull, ?w)"
    and b: "getCurrentUser_session ?P ?w = (Inr JNull, ?w)"
    and c: "getAuthToken ?P ?w =
        (case getItem ?w ''solosafe_token'' of
           None \<Rightarrow> JNull
         | Some g \<Rightarrow> if g = [] then JNull else JStr g)"
    and d: "snd (getCurrentUser ?P (setItem ''solosafe_user'' ''{bad'' ?w)) =
        removeItem ''solosafe_user'' ?w"
    by blast+
  show ?thesis
    unfolding Let_def a b c d by (simp add: held none cleared)
qed

text \<open>
  Where C10 fails as stated: the session entry holds the text \<open>null\<close>, a Google token
  is stored beside it, and \<open>getAuthToken\<close> returns that token, not \<open>null\<close>.
\<close>

theorem stored_literals_counterexample:
  "getItem (stored [(''solosafe_user'', ''null''), (''solosafe_token'', ''T'')])
       ''solosafe_user'' = Some ''null''
   \<and> getAuthToken (browser 0 (answering 200 None) GeoError)
        (stored [(''solosafe_user'', ''null''), (''solosafe_token'', ''T'')]) = JStr ''T''
   \<and> getAuthToken (browser 0 (answering 200 None) GeoError)
        (stored [(''solosafe_user'', ''null''), (''solosafe_token'', ''T'')]) \<noteq> JNull"
  by (simp add: getAuthToken_def getItem_def stored_def)

subsection \<open>The current trip\<close>

lemma started_not_ended_object:
  "is_object t \<Longrightarrow> started_not_ended P t = Inr (current_trip P t)"
  by (cases t)
    (auto simp add: is_object_def started_not_ended_def current_trip_def contains_now_def
      field_def date_le_def split: option.splits)

lemma find_js_started_not_ended:
  "\<forall>t\<in>set ts. is_object t \<Longrightarrow>
   find_js (started_not_ended P) ts =
     Inr (case List.find (current_trip P) ts of Some t \<Rightarrow> t | None \<Rightarrow> JUndefined)"
  by (induction ts) (simp_all add: started_not_ended_object)

lemma status_active_object: "is_object t \<Longrightarrow> status_active t = Inr (marked_active t)"
  by (cases t) (auto simp add: is_object_def status_active_def marked_active_def field_def)

lemma find_js_status_active:
  "\<forall>t\<in>set ts. is_object t \<Longrightarrow>
   find_js status_active ts =
     Inr (case List.find marked_active ts of Some t \<Rightarrow> t | None \<Rightarrow> JUndefined)"
  by (induction ts) (simp_all add: status_active_object)

lemma or_null_found:
  "\<forall>t\<in>set ts. is_object t \<Longrightarrow>
   or_null (case List.find p ts of Some t \<Rightarrow> t | None \<Rightarrow> JUndefined) = first_or_null p ts"
proof (cases "List.find p ts")
  case None
  then show ?thesis by (simp add: or_null_def first_or_null_def)
next
  case (Some t)
  assume objects: "\<forall>t\<in>set ts. is_object t"
  from Some have "t \<in> set ts"
    by (auto simp add: find_Some_iff)
  with objects have "is_object t" by blast
  then have "truthy t"
    by (cases t) (simp_all add: is_object_def)
  with Some show ?thesis by (simp add: or_null_def first_or_null_def)
qed

lemma getCurrentTrip_objects:
  assumes "getAllTrips P st = (ts, st1)" and "\<forall>t\<in>set ts. is_object t"
  shows "getCurrentTrip P st = (first_or_null (current_trip P) ts, st1)"
  using assms
  by (simp add: getCurrentTrip_def find_js_started_not_ended or_null_found)

lemma getCurrentTrip_session_objects:
  assumes "authenticatedFetch_session P ''https://solosafe-backend.onrender.com/api/trips''
             no_options st = (Inr (Some r), st1)"
    and "ok r" and "json r = Some data" and "getProp data ''trips'' = Inr (JArr ts)"
    and "\<forall>t\<in>set ts. is_object t"
  shows "getCurrentTrip_session P st = (first_or_null marked_active ts, st1)"
  using assms
  by (simp add: getCurrentTrip_session_def find_js_status_active or_null_found)

text \<open>
  C1, as the two clients have it. Over a fetched set of trip objects, \<open>getCurrentTrip\<close>
  of the bearer-token client returns the first trip whose interval from \<open>startDate\<close> to
  \<open>endDate\<close> contains the current time and whose status is not \<open>Completed\<close>, and
  \<open>null\<close> when the set has none; over a trip in that interval followed by a completed
  one it returns the first. \<open>getCurrentTrip\<close> of the session-cookie client returns the
  first trip of \<open>data.trips\<close> whose status is \<open>active\<close>, whatever its dates, and \<open>null\<close>
  when there is none.
\<close>

theorem getCurrentTrip_selection:
  "(getAllTrips P st = (ts, st1) \<and> (\<forall>t\<in>set ts. is_object t)
    \<longrightarrow> getCurrentTrip P st = (first_or_null (current_trip P) ts, st1))
   \<and> (getAllTrips P st = ([t1, t2], st1) \<and> is_object t1 \<and> is_object t2
       \<and> contains_now P t1 \<and> field t1 ''status'' = JStr ''active''
    \<longrightarrow> getCurrentTrip P st = (t1, st1))
   \<and> (authenticatedFetch_session P ''https://solosafe-backend.onrender.com/api/trips''
         no_options st = (Inr (Some r), st1)
       \<and> ok r \<and> json r = Some data \<and> getProp data ''trips'' = Inr (JArr ts)
       \<and> (\<forall>t\<in>set ts. is_object t)
    \<longrightarrow> getCurrentTrip_session P st = (first_or_null marked_active ts, st1))"
proof (intro conjI impI)
  assume "getAllTrips P st = (ts, st1) \<and> (\<forall>t\<in>set ts. is_object t)"
  then show "getCurrentTrip P st = (first_or_null (current_trip P) ts, st1)"
    by (simp add: getCurrentTrip_objects)
next
  assume h: "getAllTrips P st = ([t1, t2], st1) \<and> is_object t1 \<and> is_object t2
    \<and> contains_now P t1 \<and> field t1 ''status'' = JStr ''active''"
  then have "getCurrentTrip P st = (first_or_null (current_trip P) [t1, t2], st1)"
    by (simp add: getCurrentTrip_objects)
  moreover from h have "current_trip P t1"
    by (simp add: current_trip_def)
  ultimately show "getCurrentTrip P st = (t1, st1)"
    by (simp add: first_or_null_def)
next
  assume "authenticatedFetch_session P ''https://solosafe-backend.onrender.com/api/trips''
         no_options st = (Inr (Some r), st1)
       \<and> ok r \<and> json r = Some data \<and> getProp data ''trips'' = Inr (JArr ts)
       \<and> (\<forall>t\<in>set ts. is_object t)"
  then show "getCurrentTrip_session P st = (first_or_null marked_active ts, st1)"
    by (simp add: getCurrentTrip_session_objects)
qed

lemma getAllTrips_answered:
  "getAllTrips (browser clock (answering 200 (Some (JArr ts))) geo)
     (stored [(''solosafe_token'', ''T'')]) =
   (ts,
    setItem ''solosafe_trips'' (reference_stringify (JArr ts))
      (issue (mergedOptions (JStr ''T'') (API_BASE_URL @ ''/trips'') no_options)
        (stored [(''solosafe_token'', ''T'')])))"
proof -
  have "getAuthToken (browser clock (answering 200 (Some (JArr ts))) geo)
      (stored [(''solosafe_token'', ''T'')]) = JStr ''T''"
    by (simp add: getAuthToken_def getItem_def stored_def blank_def)
  then show ?thesis
    by (simp add: getAllTrips_def authenticatedFetch_def Let_def fetch_browser answering_def
        ok_def isArray_def elements_def browser_def)
qed

lemma contains_now_trip:
  "\<bar>from\<bar> \<le> 8640000000000000 \<Longrightarrow> \<bar>until\<bar> \<le> 8640000000000000 \<Longrightarrow>
   contains_now (browser clock net geo) (trip from until state) =
     (from \<le> clock \<and> clock \<le> until)"
  by (simp add: contains_now_def trip_def field_def browser_def)

theorem getCurrentTrip_selection_witness:
  "let t1 = trip (9 * day) (11 * day) ''active'';
       t2 = trip 0 (5 * day) ''Completed'';
       P = browser (10 * day) (answering 200 (Some (JArr [t1, t2]))) GeoError;
       Q = browser (10 * day) (answering 200 (Some (JObj [(''trips'', JArr [t1, t2])]))) GeoError;
       w = stored [(''solosafe_token'', ''T'')]
   in fst (getAllTrips P w) = [t1, t2]
      \<and> contains_now P t1
      \<and> fst (getCurrentTrip P w) = t1
      \<and> fst (getCurrentTrip P w) = first_or_null (current_trip P) [t1, t2]
      \<and> fst (getCurrentTrip_session Q w) = t1"
proof -
  let ?t1 = "trip (9 * day) (11 * day) ''active''"
  let ?t2 = "trip 0 (5 * day) ''Completed''"
  let ?P = "browser (10 * day) (answering 200 (Some (JArr [?t1, ?t2]))) GeoError"
  let ?data = "JObj [(''trips'', JArr [?t1, ?t2])]"
  let ?Q = "browser (10 * day) (answering 200 (Some ?data)) GeoError"
  let ?w = "stored [(''solosafe_token'', ''T'')]"
  let ?r = "\<lparr>status = 200, json = Some ?data\<rparr>"
  obtain st1 where all: "getAllTrips ?P ?w = ([?t1, ?t2], st1)"
    by (simp add: getAllTrips_answered)
  have objects: "is_object ?t1" "is_object ?t2"
    by (simp_all add: is_object_def trip_def)
  have inside: "contains_now ?P ?t1"
    by (simp add: contains_now_trip day_def)
  have active: "field ?t1 ''status'' = JStr ''active''"
    by (simp add: field_def trip_def)
  have gateway: "authenticatedFetch_session ?Q ''https://solosafe-backend.onrender.com/api/trips''
      no_options ?w =
      (Inr (Some ?r),
       issue (mergedOptions_session ''https://solosafe-backend.onrender.com/api/trips''
         no_options) ?w)"
    by (simp add: authenticatedFetch_session_def Let_def fetch_browser answering_def)
  have listed: "getProp ?data ''trips'' = Inr (JArr [?t1, ?t2])"
    by simp
  note bearer = getCurrentTrip_selection [where P = ?P and st = ?w and ts = "[?t1, ?t2]"
      and ?t1.0 = ?t1 and ?t2.0 = ?t2 and ?st1.0 = st1]
  have a: "getCurrentTrip ?P ?w = (first_or_null (current_trip ?P) [?t1, ?t2], st1)"
    by (rule bearer [THEN conjunct1, THEN mp]) (simp add: all objects)
  have b: "getCurrentTrip ?P ?w = (?t1, st1)"
    by (rule bearer [THEN conjunct2, THEN conjunct1, THEN mp])
      (simp add: all objects inside active)
  have c: "getCurrentTrip_session ?Q ?w =
      (first_or_null marked_active [?t1, ?t2],
       issue (mergedOptions_session ''https://solosafe-backend.onrender.com/api/trips''
         no_options) ?w)"
    by (rule getCurrentTrip_selection [where P = ?Q and st = ?w and ts = "[?t1, ?t2]"
          and r = ?r and data = ?data, THEN conjunct2, THEN conjunct2, THEN mp])
      (simp add: gateway objects ok_def)
  have d: "first_or_null marked_active [?t1, ?t2] = ?t1"
    by (simp add: first_or_null_def marked_active_def field_def trip_def)
  have e: "first_or_null (current_trip ?P) [?t1, ?t2] = ?t1"
    using a b by simp
  show ?thesis
    unfolding Let_def by (simp add: all inside b c d e)
qed

text \<open>
  Where C1 fails as stated: the only trip the server lists ended five days ago, so no
  interval contains the current time, and \<open>getCurrentTrip\<close> of the session-cookie
  client returns that trip because its status is \<open>active\<close>.
\<close>

theorem getCurrentTrip_selection_counterexample:
  "\<not> current_trip
        (browser (10 * day)
          (answering 200 (Some (JObj [(''trips'', JArr [trip 0 (5 * day) ''active''])])))
          GeoError)
        (trip 0 (5 * day) ''active'')
   \<and> fst (getCurrentTrip_session
        (browser (10 * day)
          (answering 200 (Some (JObj [(''trips'', JArr [trip 0 (5 * day) ''active''])])))
          GeoError)
        blank)
     = trip 0 (5 * day) ''active''"
proof -
  have "\<not> contains_now
        (browser (10 * day)
          (answering 200 (Some (JObj [(''trips'', JArr [trip 0 (5 * day) ''active''])])))
          GeoError)
        (trip 0 (5 * day) ''active'')"
    by (simp add: contains_now_trip day_def)
  moreover have "status_active (trip 0 (5 * day) ''active'') = Inr True"
    by (simp add: status_active_def trip_def)
  moreover have "truthy (trip 0 (5 * day) ''active'')"
    by (simp add: trip_def)
  ultimately show ?thesis
    by (simp add: current_trip_def getCurrentTrip_session_def authenticatedFetch_session_def
        Let_def fetch_browser answering_def ok_def or_null_def)
qed

subsection \<open>The two shapes of a stored session\<close>

lemma getCurrentUser_nested:
  assumes "holds_record P st s (JObj n)"
    and "map_of n ''user'' = Some u" and "truthy u"
  shows "getCurrentUser P st =
    (Inr (JObj (put ''token'' (field (JObj n) ''token'') (ownProps u))), st)"
  using assms
  by (simp add: holds_record_def getCurrentUser_def getCurrentUser_try_def field_def)

lemma getCurrentUser_flat:
  assumes "holds_record P st s v" and "is_object v" and "\<not> truthy (field v ''user'')"
  shows "getCurrentUser P st = (Inr v, st)"
  using assms
  by (cases v)
    (simp_all add: holds_record_def getCurrentUser_def getCurrentUser_try_def field_def
      is_object_def)

text \<open>
  C4. A record stored in the nested shape \<open>{ token, user: {...} }\<close> and the record with
  the same profile fields and the same token stored in the flat shape
  \<open>{ token, name, email, ... }\<close> (a record with no nested \<open>user\<close>) load to the same
  session object: the same properties with the same values. Loading the flat record
  changes nothing: \<open>getCurrentUser\<close> returns the record as parsed, and the storage is
  as before.
\<close>

theorem getCurrentUser_shapes:
  assumes "holds_record P st s (JObj n)"
    and "map_of n ''user'' = Some (JObj u)"
    and "map_of n ''token'' = Some t"
    and "holds_record P st' s' (JObj f)"
    and "map_of f = (map_of u)(''token'' \<mapsto> t)"
    and "\<not> truthy (field (JObj f) ''user'')"
  shows "\<exists>a b. getCurrentUser P st = (Inr a, st)
           \<and> getCurrentUser P st' = (Inr b, st')
           \<and> same_object a b
           \<and> b = JObj f"
proof -
  have "field (JObj n) ''token'' = t"
    using assms(3) by (simp add: field_def)
  with assms(1,2)
  have nested: "getCurrentUser P st = (Inr (JObj (put ''token'' t u)), st)"
    using getCurrentUser_nested [of P st s n "JObj u"] by simp
  have flat: "getCurrentUser P st' = (Inr (JObj f), st')"
    using assms(4,6) by (simp add: getCurrentUser_flat is_object_def)
  have "same_object (JObj (put ''token'' t u)) (JObj f)"
    using assms(5) by (simp add: same_object_def is_object_def map_of_put)
  with nested flat show ?thesis by blast
qed

lemma reference_parse_nested:
  "reference_parse ''{\"token\":\"T\",\"user\":{\"name\":\"Ada\",\"email\":\"ada@example.org\"}}''
   = Some (JObj [(''token'', JStr ''T''),
                 (''user'', JObj [(''name'', JStr ''Ada''),
                                  (''email'', JStr ''ada@example.org'')])])"
  by code_simp

lemma reference_parse_flat:
  "reference_parse ''{\"token\":\"T\",\"name\":\"Ada\",\"email\":\"ada@example.org\"}''
   = Some (JObj [(''token'', JStr ''T''), (''name'', JStr ''Ada''),
                 (''email'', JStr ''ada@example.org'')])"
  by code_simp

theorem getCurrentUser_shapes_witness:
  "let P = browser 0 (answering 200 None) GeoError;
       nested = stored [(''solosafe_user'',
         ''{\"token\":\"T\",\"user\":{\"name\":\"Ada\",\"email\":\"ada@example.org\"}}'')];
       flat = stored [(''solosafe_user'',
         ''{\"token\":\"T\",\"name\":\"Ada\",\"email\":\"ada@example.org\"}'')]
   in getCurrentUser P nested =
        (Inr (JObj [(''name'', JStr ''Ada''), (''email'', JStr ''ada@example.org''),
                    (''token'', JStr ''T'')]), nested)
      \<and> getCurrentUser P flat =
        (Inr (JObj [(''token'', JStr ''T''), (''name'', JStr ''Ada''),
                    (''email'', JStr ''ada@example.org'')]), flat)
      \<and> same_object (JObj [(''name'', JStr ''Ada''), (''email'', JStr ''ada@example.org''),
                            (''token'', JStr ''T'')])
           (JObj [(''token'', JStr ''T''), (''name'', JStr ''Ada''),
                  (''email'', JStr ''ada@example.org'')])"
proof -
  let ?P = "browser 0 (answering 200 None) GeoError"
  let ?s = "''{\"token\":\"T\",\"user\":{\"name\":\"Ada\",\"email\":\"ada@example.org\"}}''"
  let ?s' = "''{\"token\":\"T\",\"name\":\"Ada\",\"email\":\"ada@example.org\"}''"
  let ?u = "[(''name'', JStr ''Ada''), (''email'', JStr ''ada@example.org'')]"
  let ?n = "[(''token'', JStr ''T''), (''user'', JObj ?u)]"
  let ?f = "[(''token'', JStr ''T''), (''name'', JStr ''Ada''),
             (''email'', JStr ''ada@example.org'')]"
  let ?st = "stored [(''solosafe_user'', ?s)]"
  let ?st' = "stored [(''solosafe_user'', ?s')]"
  have nested: "holds_record ?P ?st ?s (JObj ?n)"
    by (simp add: holds_record_def getItem_def stored_def JSON_parse_browser
        reference_parse_nested)
  have flat: "holds_record ?P ?st' ?s' (JObj ?f)"
    by (simp add: holds_record_def getItem_def stored_def JSON_parse_browser
        reference_parse_flat)
  have fields: "map_of ?f = (map_of ?u)(''token'' \<mapsto> JStr ''T'')"
    by (simp add: fun_eq_iff)
  have no_user: "\<not> truthy (field (JObj ?f) ''user'')"
    by (simp add: field_def)
  have user: "map_of ?n ''user'' = Some (JObj ?u)"
    and token: "map_of ?n ''token'' = Some (JStr ''T'')"
    by simp_all
  from getCurrentUser_shapes [OF nested user token flat fields no_user]
  obtain a where a: "getCurrentUser ?P ?st = (Inr a, ?st)"
    and b: "getCurrentUser ?P ?st' = (Inr (JObj ?f), ?st')"
    and same: "same_object a (JObj ?f)"
    by auto
  have "getCurrentUser ?P ?st = (Inr (JObj (put ''token'' (JStr ''T'') ?u)), ?st)"
    using getCurrentUser_nested [OF nested user] by (simp add: field_def)
  with a have "a = JObj [(''name'', JStr ''Ada''), (''email'', JStr ''ada@example.org''),
      (''token'', JStr ''T'')]"
    by simp
  with a b same show ?thesis
    unfolding Let_def by simp
qed

subsection \<open>Merging profile updates\<close>

lemma getCurrentUser_loaded:
  "fst (getCurrentUser P st) = Inr (JObj u) \<Longrightarrow> getCurrentUser P st = (Inr (JObj u), st)"
  by (auto simp add: getCurrentUser_def split: option.splits if_splits sum.splits)

lemma getCurrentUser_session_loaded:
  "fst (getCurrentUser_session P st) = Inr (JObj u) \<Longrightarrow>
   getCurrentUser_session P st = (Inr (JObj u), st)"
  by (auto simp add: getCurrentUser_session_def split: option.splits if_splits)

lemma getCurrentUser_reads_back:
  assumes "reads_back P v" and "is_object v" and "\<not> truthy (field v ''user'')"
  shows "getCurrentUser P (setItem ''solosafe_user'' (JSON_stringify P v) st) =
    (Inr v, setItem ''solosafe_user'' (JSON_stringify P v) st)"
proof -
  have "holds_record P (setItem ''solosafe_user'' (JSON_stringify P v) st)
      (JSON_stringify P v) v"
    using assms(1) by (simp add: holds_record_def reads_back_def getItem_def setItem_def)
  then show ?thesis
    using assms(2,3) by (rule getCurrentUser_flat)
qed

lemma getCurrentUser_session_reads_back:
  assumes "reads_back P v"
  shows "getCurrentUser_session P (setItem ''solosafe_user'' (JSON_stringify P v) st) =
    (Inr v, setItem ''solosafe_user'' (JSON_stringify P v) st)"
  using assms
  by (simp add: getCurrentUser_session_def reads_back_def getItem_def setItem_def)

lemma updateUserProfile_object:
  assumes "getCurrentUser P st = (Inr (JObj u), st)"
  shows "updateUserProfile P (JObj xs) st =
    (Inr (JObj (spread u xs)),
     setItem ''solosafe_user'' (JSON_stringify P (JObj (spread u xs))) st)"
  using assms by (simp add: updateUserProfile_def Let_def)

lemma updateUserProfile_session_object:
  assumes "getCurrentUser_session P st = (Inr (JObj u), st)"
  shows "updateUserProfile_session P (JObj xs) st =
    (Inr (JObj (spread u xs)),
     setItem ''solosafe_user'' (JSON_stringify P (JObj (spread u xs))) st)"
  using assms by (simp add: updateUserProfile_session_def Let_def)

lemma merged_twice:
  assumes "distinct_keys xs" and "distinct_keys ys"
  shows "map_of (spread (spread u xs) ys) = map_of u ++ map_of xs ++ map_of ys"
  using assms by (simp add: distinct_keys_def map_of_spread)

text \<open>
  C5, as the code has it. On an existing session \<open>u\<close>, \<open>updateUserProfile\<close> with the
  partial \<open>xs\<close> and then with the partial \<open>ys\<close> returns and persists, each time, the
  shallow merge of the partial over the fields it loaded. After the two calls the
  persisted record has every field of \<open>ys\<close>, every field of \<open>xs\<close> that \<open>ys\<close> does not
  assign again, and the token of \<open>u\<close> when neither partial assigns \<open>token\<close>: the
  token is a field like the others, and a partial that assigns it replaces it. The
  record written by the first call has to come back from the storage as written; in
  the bearer-token client, where a load flattens a nested \<open>user\<close>, the second call
  merges over the record of the first when that record has no such field.
\<close>

theorem updateUserProfile_twice:
  assumes "reads_back P (JObj (spread u xs))"
    and "distinct_keys xs" and "distinct_keys ys"
  shows "(fst (getCurrentUser P st) = Inr (JObj u)
          \<and> \<not> truthy (field (JObj (spread u xs)) ''user'')
          \<longrightarrow> (\<exists>st1 st2.
                updateUserProfile P (JObj xs) st = (Inr (JObj (spread u xs)), st1)
                \<and> updateUserProfile P (JObj ys) st1 =
                    (Inr (JObj (spread (spread u xs) ys)), st2)
                \<and> getItem st2 ''solosafe_user'' =
                    Some (JSON_stringify P (JObj (spread (spread u xs) ys)))))
         \<and> (fst (getCurrentUser_session P st) = Inr (JObj u)
          \<longrightarrow> (\<exists>st1 st2.
                updateUserProfile_session P (JObj xs) st = (Inr (JObj (spread u xs)), st1)
                \<and> updateUserProfile_session P (JObj ys) st1 =
                    (Inr (JObj (spread (spread u xs) ys)), st2)
                \<and> getItem st2 ''solosafe_user'' =
                    Some (JSON_stringify P (JObj (spread (spread u xs) ys)))))
         \<and> map_of (spread (spread u xs) ys) = map_of u ++ map_of xs ++ map_of ys
         \<and> (\<forall>k v. map_of ys k = Some v
              \<longrightarrow> map_of (spread (spread u xs) ys) k = Some v)
         \<and> (\<forall>k v. map_of xs k = Some v \<and> map_of ys k = None
              \<longrightarrow> map_of (spread (spread u xs) ys) k = Some v)
         \<and> (map_of xs ''token'' = None \<and> map_of ys ''token'' = None
              \<longrightarrow> map_of (spread (spread u xs) ys) ''token'' = map_of u ''token'')"
proof (intro conjI impI allI)
  let ?v1 = "JObj (spread u xs)"
  let ?v2 = "JObj (spread (spread u xs) ys)"
  let ?st1 = "setItem ''solosafe_user'' (JSON_stringify P ?v1) st"
  let ?st2 = "setItem ''solosafe_user'' (JSON_stringify P ?v2) ?st1"
  show merged: "map_of (spread (spread u xs) ys) = map_of u ++ map_of xs ++ map_of ys"
    using assms(2,3) by (rule merged_twice)
  {
    assume h: "fst (getCurrentUser P st) = Inr (JObj u)
      \<and> \<not> truthy (field (JObj (spread u xs)) ''user'')"
    then have first: "updateUserProfile P (JObj xs) st = (Inr ?v1, ?st1)"
      by (simp add: getCurrentUser_loaded updateUserProfile_object)
    have "getCurrentUser P ?st1 = (Inr ?v1, ?st1)"
      using assms(1) h by (simp add: getCurrentUser_reads_back is_object_def)
    then have second: "updateUserProfile P (JObj ys) ?st1 = (Inr ?v2, ?st2)"
      by (rule updateUserProfile_object)
    have "getItem ?st2 ''solosafe_user'' = Some (JSON_stringify P ?v2)"
      by (simp add: getItem_def setItem_def)
    with first second
    show "\<exists>st1 st2.
        updateUserProfile P (JObj xs) st = (Inr ?v1, st1)
        \<and> updateUserProfile P (JObj ys) st1 = (Inr ?v2, st2)
        \<and> getItem st2 ''solosafe_user'' = Some (JSON_stringify P ?v2)"
      by blast
  }
  {
    assume h: "fst (getCurrentUser_session P st) = Inr (JObj u)"
    then have first: "updateUserProfile_session P (JObj xs) st = (Inr ?v1, ?st1)"
      by (simp add: getCurrentUser_session_loaded updateUserProfile_session_object)
    have "getCurrentUser_session P ?st1 = (Inr ?v1, ?st1)"
      using assms(1) by (rule getCurrentUser_session_reads_back)
    then have second: "updateUserProfile_session P (JObj ys) ?st1 = (Inr ?v2, ?st2)"
      by (rule updateUserProfile_session_object)
    have "getItem ?st2 ''solosafe_user'' = Some (JSON_stringify P ?v2)"
      by (simp add: getItem_def setItem_def)
    with first second
    show "\<exists>st1 st2.
        updateUserProfile_session P (JObj xs) st = (Inr ?v1, st1)
        \<and> updateUserProfile_session P (JObj ys) st1 = (Inr ?v2, st2)
        \<and> getItem st2 ''solosafe_user'' = Some (JSON_stringify P ?v2)"
      by blast
  }
  {
    fix k v
    assume "map_of ys k = Some v"
    then show "map_of (spread (spread u xs) ys) k = Some v"
      by (simp add: merged)
  }
  {
    fix k v
    assume "map_of xs k = Some v \<and> map_of ys k = None"
    then show "map_of (spread (spread u xs) ys) k = Some v"
      by (simp add: merged map_add_def)
  }
  {
    assume "map_of xs ''token'' = None \<and> map_of ys ''token'' = None"
    then show "map_of (spread (spread u xs) ys) ''token'' = map_of u ''token''"
      by (simp add: merged map_add_def)
  }
qed

lemma reference_parse_session:
  "reference_parse ''{\"token\":\"T\",\"name\":\"Ada\"}''
   = Some (JObj [(''token'', JStr ''T''), (''name'', JStr ''Ada'')])"
  by code_simp

lemma reference_stringify_first:
  "reference_stringify
     (JObj [(''token'', JStr ''T''), (''name'', JStr ''Ada''), (''username'', JStr ''ada'')])
   = ''{\"token\":\"T\",\"name\":\"Ada\",\"username\":\"ada\"}''"
  by code_simp

lemma reference_parse_first:
  "reference_parse ''{\"token\":\"T\",\"name\":\"Ada\",\"username\":\"ada\"}''
   = Some (JObj [(''token'', JStr ''T''), (''name'', JStr ''Ada''),
                 (''username'', JStr ''ada'')])"
  by code_simp

lemma reference_stringify_second:
  "reference_stringify
     (JObj [(''token'', JStr ''T''), (''name'', JStr ''Ada''), (''username'', JStr ''ada''),
            (''profilePicture'', JStr ''data:image/png;base64,AAAA'')])
   = ''{\"token\":\"T\",\"name\":\"Ada\",\"username\":\"ada\",\"profilePicture\":\"data:image/png;base64,AAAA\"}''"
  by code_simp

theorem updateUserProfile_twice_witness:
  "let P = browser 0 (answering 200 None) GeoError;
       w = stored [(''solosafe_user'', ''{\"token\":\"T\",\"name\":\"Ada\"}'')];
       x = JObj [(''username'', JStr ''ada'')];
       y = JObj [(''profilePicture'', JStr ''data:image/png;base64,AAAA'')];
       merged = JObj [(''token'', JStr ''T''), (''name'', JStr ''Ada''),
                      (''username'', JStr ''ada''),
                      (''profilePicture'', JStr ''data:image/png;base64,AAAA'')];
       written = ''{\"token\":\"T\",\"name\":\"Ada\",\"username\":\"ada\",\"profilePicture\":\"data:image/png;base64,AAAA\"}''
   in fst (getCurrentUser P w) = Inr (JObj [(''token'', JStr ''T''), (''name'', JStr ''Ada'')])
      \<and> fst (updateUserProfile P y (snd (updateUserProfile P x w))) = Inr merged
      \<and> getItem (snd (updateUserProfile P y (snd (updateUserProfile P x w))))
           ''solosafe_user'' = Some written
      \<and> fst (updateUserProfile_session P y (snd (updateUserProfile_session P x w)))
           = Inr merged
      \<and> getItem (snd (updateUserProfile_session P y (snd (updateUserProfile_session P x w))))
           ''solosafe_user'' = Some written
      \<and> field merged ''token'' = JStr ''T''"
proof -
  let ?P = "browser 0 (answering 200 None) GeoError"
  let ?w = "stored [(''solosafe_user'', ''{\"token\":\"T\",\"name\":\"Ada\"}'')]"
  let ?u = "[(''token'', JStr ''T''), (''name'', JStr ''Ada'')]"
  let ?xs = "[(''username'', JStr ''ada'')]"
  let ?ys = "[(''profilePicture'', JStr ''data:image/png;base64,AAAA'')]"
  have session: "holds_record ?P ?w ''{\"token\":\"T\",\"name\":\"Ada\"}'' (JObj ?u)"
    by (simp add: holds_record_def getItem_def stored_def JSON_parse_browser
        reference_parse_session)
  then have loaded: "getCurrentUser ?P ?w = (Inr (JObj ?u), ?w)"
    by (rule getCurrentUser_flat) (simp_all add: is_object_def field_def)
  have loaded_session: "getCurrentUser_session ?P ?w = (Inr (JObj ?u), ?w)"
    using session by (simp add: getCurrentUser_session_def holds_record_def)
  have kept: "reads_back ?P (JObj (spread ?u ?xs))"
    by (simp add: reads_back_def JSON_parse_browser JSON_stringify_browser
        reference_stringify_first reference_parse_first)
  have keys: "distinct_keys ?xs" "distinct_keys ?ys"
    by (simp_all add: distinct_keys_def)
  have flat: "\<not> truthy (field (JObj (spread ?u ?xs)) ''user'')"
    by (simp add: field_def)
  note twice = updateUserProfile_twice [OF kept keys, where st = ?w]
  from twice loaded flat
  obtain st1 st2 where
    "updateUserProfile ?P (JObj ?xs) ?w = (Inr (JObj (spread ?u ?xs)), st1)"
    "updateUserProfile ?P (JObj ?ys) st1 = (Inr (JObj (spread (spread ?u ?xs) ?ys)), st2)"
    "getItem st2 ''solosafe_user'' =
      Some (JSON_stringify ?P (JObj (spread (spread ?u ?xs) ?ys)))"
    by auto
  then have bearer:
    "fst (updateUserProfile ?P (JObj ?ys) (snd (updateUserProfile ?P (JObj ?xs) ?w))) =
      Inr (JObj (spread (spread ?u ?xs) ?ys))"
    "getItem (snd (updateUserProfile ?P (JObj ?ys) (snd (updateUserProfile ?P (JObj ?xs) ?w))))
      ''solosafe_user'' = Some (JSON_stringify ?P (JObj (spread (spread ?u ?xs) ?ys)))"
    by simp_all
  from twice loaded_session
  obtain st1' st2' where
    "updateUserProfile_session ?P (JObj ?xs) ?w = (Inr (JObj (spread ?u ?xs)), st1')"
    "updateUserProfile_session ?P (JObj ?ys) st1' =
      (Inr (JObj (spread (spread ?u ?xs) ?ys)), st2')"
    "getItem st2' ''solosafe_user'' =
      Some (JSON_stringify ?P (JObj (spread (spread ?u ?xs) ?ys)))"
    by auto
  then have cookie:
    "fst (updateUserProfile_session ?P (JObj ?ys)
        (snd (updateUserProfile_session ?P (JObj ?xs) ?w))) =
      Inr (JObj (spread (spread ?u ?xs) ?ys))"
    "getItem (snd (updateUserProfile_session ?P (JObj ?ys)
        (snd (updateUserProfile_session ?P (JObj ?xs) ?w))))
      ''solosafe_user'' = Some (JSON_stringify ?P (JObj (spread (spread ?u ?xs) ?ys)))"
    by simp_all
  show ?thesis
    unfolding Let_def bearer cookie
    by (simp add: loaded JSON_stringify_browser reference_stringify_second field_def)
qed

lemma reference_stringify_replaced:
  "reference_stringify (JObj [(''token'', JStr ''X''), (''name'', JStr ''Ada'')])
   = ''{\"token\":\"X\",\"name\":\"Ada\"}''"
  by code_simp

lemma reference_stringify_nested_partial:
  "reference_stringify
     (JObj [(''token'', JStr ''T''), (''name'', JStr ''Ada''),
            (''user'', JObj [(''nick'', JStr ''a'')])])
   = ''{\"token\":\"T\",\"name\":\"Ada\",\"user\":{\"nick\":\"a\"}}''"
  by code_simp

lemma reference_parse_nested_partial:
  "reference_parse ''{\"token\":\"T\",\"name\":\"Ada\",\"user\":{\"nick\":\"a\"}}''
   = Some (JObj [(''token'', JStr ''T''), (''name'', JStr ''Ada''),
                 (''user'', JObj [(''nick'', JStr ''a'')])])"
  by code_simp

lemma getCurrentUser_session_record:
  "getCurrentUser (browser 0 (answering 200 None) GeoError)
     (stored [(''solosafe_user'', ''{\"token\":\"T\",\"name\":\"Ada\"}'')])
   = (Inr (JObj [(''token'', JStr ''T''), (''name'', JStr ''Ada'')]),
      stored [(''solosafe_user'', ''{\"token\":\"T\",\"name\":\"Ada\"}'')])"
  by (simp add: getCurrentUser_def getCurrentUser_try_def getItem_def stored_def
      JSON_parse_browser reference_parse_session)

text \<open>
  Where C5 fails as stated. The session holds the token \<open>T\<close>. A partial that assigns
  \<open>token\<close> replaces the credential: the record persisted holds \<open>X\<close>. And in the
  bearer-token client a first partial with a \<open>user\<close> field is flattened by the load
  of the second call: the record persisted after the two calls has neither the
  \<open>name\<close> of the session nor the \<open>user\<close> field of the first partial.
\<close>

theorem updateUserProfile_twice_counterexample:
  "fst (getCurrentUser (browser 0 (answering 200 None) GeoError)
         (stored [(''solosafe_user'', ''{\"token\":\"T\",\"name\":\"Ada\"}'')]))
     = Inr (JObj [(''token'', JStr ''T''), (''name'', JStr ''Ada'')])
   \<and> getItem (snd (updateUserProfile (browser 0 (answering 200 None) GeoError)
                     (JObj [(''token'', JStr ''X'')])
                     (stored [(''solosafe_user'', ''{\"token\":\"T\",\"name\":\"Ada\"}'')])))
       ''solosafe_user''
     = Some ''{\"token\":\"X\",\"name\":\"Ada\"}''
   \<and> getItem (snd (updateUserProfile_session (browser 0 (answering 200 None) GeoError)
                     (JObj [(''token'', JStr ''X'')])
                     (stored [(''solosafe_user'', ''{\"token\":\"T\",\"name\":\"Ada\"}'')])))
       ''solosafe_user''
     = Some ''{\"token\":\"X\",\"name\":\"Ada\"}''
   \<and> fst (updateUserProfile (browser 0 (answering 200 None) GeoError)
            (JObj [(''username'', JStr ''ada'')])
            (snd (updateUserProfile (browser 0 (answering 200 None) GeoError)
                   (JObj [(''user'', JObj [(''nick'', JStr ''a'')])])
                   (stored [(''solosafe_user'', ''{\"token\":\"T\",\"name\":\"Ada\"}'')]))))
     = Inr (JObj [(''nick'', JStr ''a''), (''token'', JStr ''T''),
                  (''username'', JStr ''ada'')])"
proof -
  let ?P = "browser 0 (answering 200 None) GeoError"
  let ?w = "stored [(''solosafe_user'', ''{\"token\":\"T\",\"name\":\"Ada\"}'')]"
  let ?u = "[(''token'', JStr ''T''), (''name'', JStr ''Ada'')]"
  let ?nested = "''{\"token\":\"T\",\"name\":\"Ada\",\"user\":{\"nick\":\"a\"}}''"
  have loaded: "getCurrentUser ?P ?w = (Inr (JObj ?u), ?w)"
    by (rule getCurrentUser_session_record)
  have loaded_session: "getCurrentUser_session ?P ?w = (Inr (JObj ?u), ?w)"
    by (simp add: getCurrentUser_session_def getItem_def stored_def JSON_parse_browser
        reference_parse_session)
  have replaced: "getItem (snd (updateUserProfile ?P (JObj [(''token'', JStr ''X'')]) ?w))
      ''solosafe_user'' = Some ''{\"token\":\"X\",\"name\":\"Ada\"}''"
    by (simp add: updateUserProfile_object [OF loaded] getItem_def setItem_def
        JSON_stringify_browser reference_stringify_replaced)
  have replaced_session:
    "getItem (snd (updateUserProfile_session ?P (JObj [(''token'', JStr ''X'')]) ?w))
      ''solosafe_user'' = Some ''{\"token\":\"X\",\"name\":\"Ada\"}''"
    by (simp add: updateUserProfile_session_object [OF loaded_session] getItem_def
        setItem_def JSON_stringify_browser reference_stringify_replaced)
  have first: "snd (updateUserProfile ?P (JObj [(''user'', JObj [(''nick'', JStr ''a'')])]) ?w)
      = setItem ''solosafe_user'' ?nested ?w"
    by (simp add: updateUserProfile_object [OF loaded] JSON_stringify_browser
        reference_stringify_nested_partial)
  have reload: "getCurrentUser ?P (setItem ''solosafe_user'' ?nested ?w) =
      (Inr (JObj [(''nick'', JStr ''a''), (''token'', JStr ''T'')]),
       setItem ''solosafe_user'' ?nested ?w)"
    by (simp add: getCurrentUser_def getCurrentUser_try_def getItem_def setItem_def
        JSON_parse_browser reference_parse_nested_partial)
  have second: "fst (updateUserProfile ?P (JObj [(''username'', JStr ''ada'')])
        (setItem ''solosafe_user'' ?nested ?w)) =
      Inr (JObj [(''nick'', JStr ''a''), (''token'', JStr ''T''), (''username'', JStr ''ada'')])"
    by (simp add: updateUserProfile_object [OF reload])
  show ?thesis
    unfolding first by (simp add: loaded replaced replaced_session second)
qed

subsection \<open>Check-in and SOS without a location\<close>

















subsection \<open>The OAuth callback\<close>

text \<open>
  From a storage with no session record, the callback does what the specification
  says of it: the profile is fetched with the token of the address bar, the stored
  session is the fetched profile with that token, the provisional entry is gone, the
  query is stripped, and no redirect is scheduled.
\<close>

lemma handleGoogleCallback_fresh:
  assumes "map_of (query st) ''token'' = Some T" and "T \<noteq> []"
    and "getItem st ''solosafe_user'' = None"
    and "fetch P (profile_request (JStr T)) = Response r" and "ok r"
    and "json r = Some profile"
  shows "handleGoogleCallback P st =
    (True,
     st\<lparr>storage := (storage st)
          (''solosafe_user'' \<mapsto>
             JSON_stringify P (JObj (put ''token'' (JStr T) (ownProps profile))),
           ''solosafe_token'' := None),
        toasts := toasts st @
          [(welcome_text (JObj (put ''token'' (JStr T) (ownProps profile))), ''success'')],
        sent := sent st @ [profile_request (JStr T)],
        query := []\<rparr>)"
proof -
  have "getAuthToken P (setItem ''solosafe_token'' T st) = JStr T"
    using assms(2,3) by (simp add: getAuthToken_def getItem_def setItem_def)
  then have "fetchUserProfile P (setItem ''solosafe_token'' T st) =
      (Inr (JObj (put ''token'' (JStr T) (ownProps profile))),
       setItem ''solosafe_user''
         (JSON_stringify P (JObj (put ''token'' (JStr T) (ownProps profile))))
         (issue (profile_request (JStr T)) (setItem ''solosafe_token'' T st)))"
    using assms(2,4,5,6) by (simp add: fetchUserProfile_def Let_def)
  then show ?thesis
    using assms(1,2)
    by (simp add: handleGoogleCallback_def world_ops fun_upd_twist)
qed

lemma reference_parse_stale:
  "reference_parse ''{\"token\":\"OLD\",\"name\":\"Ada\"}''
   = Some (JObj [(''token'', JStr ''OLD''), (''name'', JStr ''Ada'')])"
  by code_simp

lemma reference_stringify_stale:
  "reference_stringify
     (JObj [(''name'', JStr ''Grace''), (''email'', JStr ''grace@example.org''),
            (''token'', JStr ''OLD'')])
   = ''{\"name\":\"Grace\",\"email\":\"grace@example.org\",\"token\":\"OLD\"}''"
  by code_simp

text \<open>
  C8 at a storage that still holds an earlier session. The callback arrives with the
  token \<open>NEW\<close> while \<open>solosafe_user\<close> holds a record with the token \<open>OLD\<close>;
  \<open>getAuthToken\<close> prefers the record, so the profile is fetched with \<open>OLD\<close>, the fetch
  succeeds, and the session stored afterwards carries \<open>OLD\<close>: \<open>NEW\<close> is removed with
  the provisional entry and is stored nowhere.
\<close>

theorem handleGoogleCallback_stale_session:
  "fst (handleGoogleCallback
         (browser 0
           (answering 200
             (Some (JObj [(''name'', JStr ''Grace''), (''email'', JStr ''grace@example.org'')])))
           GeoError)
         ((stored [(''solosafe_user'', ''{\"token\":\"OLD\",\"name\":\"Ada\"}'')])
            \<lparr>query := [(''token'', ''NEW'')]\<rparr>))
   = True
   \<and> storage (snd (handleGoogleCallback
         (browser 0
           (answering 200
             (Some (JObj [(''name'', JStr ''Grace''), (''email'', JStr ''grace@example.org'')])))
           GeoError)
         ((stored [(''solosafe_user'', ''{\"token\":\"OLD\",\"name\":\"Ada\"}'')])
            \<lparr>query := [(''token'', ''NEW'')]\<rparr>)))
     = [''solosafe_user'' \<mapsto>
          ''{\"name\":\"Grace\",\"email\":\"grace@example.org\",\"token\":\"OLD\"}'']
   \<and> sent (snd (handleGoogleCallback
         (browser 0
           (answering 200
             (Some (JObj [(''name'', JStr ''Grace''), (''email'', JStr ''grace@example.org'')])))
           GeoError)
         ((stored [(''solosafe_user'', ''{\"token\":\"OLD\",\"name\":\"Ada\"}'')])
            \<lparr>query := [(''token'', ''NEW'')]\<rparr>)))
     = [profile_request (JStr ''OLD'')]"
proof -
  let ?profile = "JObj [(''name'', JStr ''Grace''), (''email'', JStr ''grace@example.org'')]"
  let ?P = "browser 0 (answering 200 (Some ?profile)) GeoError"
  let ?w = "(stored [(''solosafe_user'', ''{\"token\":\"OLD\",\"name\":\"Ada\"}'')])
      \<lparr>query := [(''token'', ''NEW'')]\<rparr>"
  let ?w1 = "setItem ''solosafe_token'' ''NEW'' ?w"
  have old: "getAuthToken ?P ?w1 = JStr ''OLD''"
    by (simp add: getAuthToken_def getItem_def setItem_def stored_def JSON_parse_browser
        reference_parse_stale)
  have "fetchUserProfile ?P ?w1 =
      (Inr (JObj [(''name'', JStr ''Grace''), (''email'', JStr ''grace@example.org''),
                  (''token'', JStr ''OLD'')]),
       setItem ''solosafe_user''
         ''{\"name\":\"Grace\",\"email\":\"grace@example.org\",\"token\":\"OLD\"}''
         (issue (profile_request (JStr ''OLD'')) ?w1))"
    by (simp add: fetchUserProfile_def Let_def old fetch_browser answering_def ok_def
        JSON_stringify_browser reference_stringify_stale)
  moreover have "map_of (query ?w) ''token'' = Some ''NEW''"
    by simp
  ultimately show ?thesis
    by (simp add: handleGoogleCallback_def world_ops stored_def blank_def fun_eq_iff)
qed

end
